theory Spec2Isabelle
  imports Main
begin

section \<open>The macro state of a compilation unit\<close>

text \<open>
  The program is the configuration header \<^verbatim>\<open>src/config/mpich2.h\<close>: sixteen lines of
  preprocessor directives. What it computes is a change of the compile-time macro
  environment, and the inclusion of one further file. The model is the state the
  preprocessor threads through the directives, and the preprocessor is the one of gcc.

  A macro is bound to its replacement list. The header itself writes two kinds of
  replacement list, the empty one (\<^verbatim>\<open>#define PyMPI_CONFIG_MPICH2_H\<close>) and a single
  integer constant (\<^verbatim>\<open>#define ... 1\<close>), and the one macro it reads as a number,
  \<^verbatim>\<open>MPICH2_NUMVERSION\<close>, is an integer constant where the MPI implementation defines it.
  These are the replacement lists of the model: \<open>IntLit n\<close> is the body written as the
  decimal numeral of \<open>n\<close>, after a minus sign when \<open>n\<close> is negative. Of the other macros
  the header reads (\<^verbatim>\<open>MS_WINDOWS\<close>, \<^verbatim>\<open>ROMIO_VERSION\<close>, its own guard) only whether they are
  defined matters.
\<close>

datatype macro_body = Empty | IntLit int

type_synonym macro_env = "string \<rightharpoonup> macro_body"

text \<open>
  What a directive of this header does besides changing the environment is recorded, in
  order, in a trace: one event for every \<^verbatim>\<open>#define\<close> that is executed and one for every
  \<^verbatim>\<open>#include\<close> that is executed. Directives in a skipped group leave no event.

  The state also knows how the compiler was started: with \<^verbatim>\<open>-pedantic-errors\<close> the
  diagnostics the language requires are errors, without it they are warnings.
\<close>

datatype pp_event = Defined string macro_body | Included string

record pp_state =
  macros :: macro_env
  trace :: "pp_event list"
  pedantic_errors :: bool

text \<open>
  The errors a pass over the header can diagnose: an \<^verbatim>\<open>#if\<close> whose expression does not
  parse or holds a constant the preprocessor's integer type does not hold, a \<^verbatim>\<open>#define\<close>
  of a macro that is already defined with a different replacement list, and an
  \<^verbatim>\<open>#include\<close> that cannot be processed. The preprocessor goes on after an error (a failed
  \<^verbatim>\<open>#include\<close> apart, which is fatal), so a directive yields the next state together with
  the errors it diagnoses; warnings are not kept. A translation with an error fails.
\<close>

datatype pp_error = BadIfExpression string | Redefinition string | IncludeFailed string

definition and_then :: "pp_error + 'a \<Rightarrow> ('a \<Rightarrow> pp_error + 'b) \<Rightarrow> pp_error + 'b" where
  "and_then r f = (case r of Inl e \<Rightarrow> Inl e | Inr x \<Rightarrow> f x)"

definition then_pass ::
  "pp_state \<times> pp_error list \<Rightarrow> (pp_state \<Rightarrow> pp_state \<times> pp_error list) \<Rightarrow>
   pp_state \<times> pp_error list" where
  \<comment> \<open>the next directive, from the state the directives so far have left\<close>
  "then_pass r f = (case r of (s, es) \<Rightarrow> (case f s of (s', es') \<Rightarrow> (s', es @ es')))"

section \<open>The directives the header uses\<close>

definition pp_defined :: "macro_env \<Rightarrow> string \<Rightarrow> bool" where
  \<comment> \<open>\<^verbatim>\<open>defined(x)\<close>, \<^verbatim>\<open>#ifdef x\<close>; \<^verbatim>\<open>#ifndef x\<close> is its negation.\<close>
  "pp_defined e x = (e x \<noteq> None)"

definition pp_define :: "string \<Rightarrow> macro_body \<Rightarrow> pp_state \<Rightarrow> pp_state \<times> pp_error list" where
  \<comment> \<open>\<^verbatim>\<open>#define x b\<close>: a new macro is bound; repeating the definition a macro already has
      changes nothing; any other redefinition binds the macro anew, with a diagnostic
      that is an error under \<^verbatim>\<open>-pedantic-errors\<close> and a warning otherwise.\<close>
  "pp_define x b s =
     (case macros s x of
        None \<Rightarrow> (s\<lparr>macros := (macros s)(x \<mapsto> b), trace := trace s @ [Defined x b]\<rparr>, [])
      | Some b' \<Rightarrow>
          if b' = b then (s\<lparr>trace := trace s @ [Defined x b]\<rparr>, [])
          else (s\<lparr>macros := (macros s)(x \<mapsto> b), trace := trace s @ [Defined x b]\<rparr>,
                if pedantic_errors s then [Redefinition x] else []))"

text \<open>
  An \<^verbatim>\<open>#if\<close> expression is evaluated in the widest integer type, of 64 bits. A number is
  its 64 bits, here the integer from 0 up to \<open>2 ^ 64\<close> they stand for, and whether its
  type is the unsigned one. A decimal constant is reduced modulo \<open>2 ^ 64\<close>. It is unsigned
  when it is too large for the signed type and still fits the unsigned one; a constant
  that does not fit 64 bits stays signed, with the bits that are left. The minus sign
  before a constant negates the bits and keeps the type. A constant from \<open>2 ^ 63\<close> on
  draws a diagnostic (it is so large that it is unsigned, or too large for its type) that
  \<^verbatim>\<open>-pedantic-errors\<close> turns into an error.
\<close>

record pp_num =
  bits :: int
  unsignedp :: bool

definition pp_number :: "int \<Rightarrow> pp_num" where
  \<comment> \<open>the number that the body \<open>IntLit n\<close> stands for\<close>
  "pp_number n = \<lparr>bits = n mod 2 ^ 64, unsignedp = (2 ^ 63 \<le> \<bar>n\<bar> \<and> \<bar>n\<bar> < 2 ^ 64)\<rparr>"

definition pp_pedantic_number :: "int \<Rightarrow> bool" where
  \<comment> \<open>the constant of the body \<open>IntLit n\<close> draws that diagnostic\<close>
  "pp_pedantic_number n = (2 ^ 63 \<le> \<bar>n\<bar>)"

definition signed_value :: "int \<Rightarrow> int" where
  \<comment> \<open>64 bits read as a signed number\<close>
  "signed_value w = (if w < 2 ^ 63 then w else w - 2 ^ 64)"

definition pp_less :: "pp_num \<Rightarrow> pp_num \<Rightarrow> bool" where
  \<comment> \<open>\<^verbatim>\<open><\<close>: unsigned as soon as one operand is\<close>
  "pp_less a b =
     (if unsignedp a \<or> unsignedp b then bits a < bits b
      else signed_value (bits a) < signed_value (bits b))"

definition pp_operand :: "macro_env \<Rightarrow> string \<Rightarrow> pp_error + pp_num" where
  \<comment> \<open>An identifier used as a number in an \<^verbatim>\<open>#if\<close> expression: a macro is replaced by its
      body, an identifier that is no macro counts as 0, and an empty body leaves an operator
      without its operand.\<close>
  "pp_operand e x =
     (case e x of
        None \<Rightarrow> Inr (pp_number 0)
      | Some (IntLit n) \<Rightarrow> Inr (pp_number n)
      | Some Empty \<Rightarrow> Inl (BadIfExpression x))"

definition pp_pedantic_operand :: "macro_env \<Rightarrow> string \<Rightarrow> bool" where
  "pp_pedantic_operand e x =
     (case e x of Some (IntLit n) \<Rightarrow> pp_pedantic_number n | _ \<Rightarrow> False)"

text \<open>
  The file \<^verbatim>\<open>mpich2io.h\<close> is not part of the sources at hand. Its effect on the macro
  environment is a parameter of the model: a function from the environment at the point of
  inclusion to the environment after it, or \<open>None\<close> when the file cannot be found or does
  not get through the preprocessor.
\<close>

type_synonym header_effect = "macro_env \<Rightarrow> macro_env option"

definition pp_include :: "header_effect \<Rightarrow> string \<Rightarrow> pp_state \<Rightarrow> pp_state \<times> pp_error list" where
  \<comment> \<open>\<^verbatim>\<open>#include "f"\<close>: the directive is executed, and fails when the file does\<close>
  "pp_include h f s =
     (case h (macros s) of
        None \<Rightarrow> (s\<lparr>trace := trace s @ [Included f]\<rparr>, [IncludeFailed f])
      | Some e \<Rightarrow> (s\<lparr>macros := e, trace := trace s @ [Included f]\<rparr>, []))"

section \<open>The header\<close>

definition numversion_test :: "macro_env \<Rightarrow> pp_error + bool" where
  \<comment> \<open>line 5: \<^verbatim>\<open>#if !defined(MPICH2_NUMVERSION) || (MPICH2_NUMVERSION < 10100000)\<close>. The whole
      expression is macro-replaced and parsed before it is evaluated.\<close>
  "numversion_test e =
     and_then (pp_operand e ''MPICH2_NUMVERSION'')
       (\<lambda>v. Inr (\<not> pp_defined e ''MPICH2_NUMVERSION'' \<or> pp_less v (pp_number 10100000)))"

definition f90_gap :: "pp_state \<Rightarrow> pp_state \<times> pp_error list" where
  \<comment> \<open>lines 4 to 10. An \<^verbatim>\<open>#if\<close> that does not parse is an error and its group is skipped;
      line 5 is not evaluated where line 4 skips it.\<close>
  "f90_gap s =
     (if pp_defined (macros s) ''MS_WINDOWS'' then
        case numversion_test (macros s) of
          Inl err \<Rightarrow> (s, [err])
        | Inr old \<Rightarrow>
            then_pass
              (s, if pedantic_errors s \<and> pp_pedantic_operand (macros s) ''MPICH2_NUMVERSION''
                  then [BadIfExpression ''MPICH2_NUMVERSION''] else [])
              (\<lambda>s.
                if old then
                  then_pass
                    (then_pass
                      (pp_define ''PyMPI_MISSING_MPI_TYPE_CREATE_F90_INTEGER'' (IntLit 1) s)
                      (pp_define ''PyMPI_MISSING_MPI_TYPE_CREATE_F90_REAL'' (IntLit 1)))
                    (pp_define ''PyMPI_MISSING_MPI_TYPE_CREATE_F90_COMPLEX'' (IntLit 1))
                else (s, []))
      else (s, []))"

definition romio_include :: "header_effect \<Rightarrow> pp_state \<Rightarrow> pp_state \<times> pp_error list" where
  \<comment> \<open>lines 12 to 14\<close>
  "romio_include mpich2io_h s =
     (if \<not> pp_defined (macros s) ''ROMIO_VERSION'' then pp_include mpich2io_h ''mpich2io.h'' s
      else (s, []))"

definition mpich2_h_pass :: "header_effect \<Rightarrow> pp_state \<Rightarrow> pp_state \<times> pp_error list" where
  \<comment> \<open>lines 1 to 16: the include guard around the two groups. The \<^verbatim>\<open>#include\<close> is the last
      directive, so nothing is left to skip when it fails.\<close>
  "mpich2_h_pass mpich2io_h s =
     (if \<not> pp_defined (macros s) ''PyMPI_CONFIG_MPICH2_H'' then
        then_pass
          (then_pass (pp_define ''PyMPI_CONFIG_MPICH2_H'' Empty s) f90_gap)
          (romio_include mpich2io_h)
      else (s, []))"

definition mpich2_h :: "header_effect \<Rightarrow> pp_state \<Rightarrow> pp_error + pp_state" where
  \<comment> \<open>the translation of the header: the state the pass leaves when it has diagnosed no
      error, and its first error otherwise\<close>
  "mpich2_h mpich2io_h s =
     (case mpich2_h_pass mpich2io_h s of
        (s', []) \<Rightarrow> Inr s'
      | (s', err # errs) \<Rightarrow> Inl err)"

text \<open>A compilation unit that names the header \<open>n\<close> times in a row.\<close>

fun include_times :: "header_effect \<Rightarrow> nat \<Rightarrow> pp_state \<Rightarrow> pp_error + pp_state" where
  "include_times mpich2io_h 0 s = Inr s"
| "include_times mpich2io_h (Suc n) s =
     and_then (mpich2_h mpich2io_h s) (include_times mpich2io_h n)"

section \<open>Vocabulary of the properties\<close>

definition f90_markers :: "string list" where
  "f90_markers =
     [''PyMPI_MISSING_MPI_TYPE_CREATE_F90_INTEGER'',
      ''PyMPI_MISSING_MPI_TYPE_CREATE_F90_REAL'',
      ''PyMPI_MISSING_MPI_TYPE_CREATE_F90_COMPLEX'']"

fun is_define_of :: "string \<Rightarrow> pp_event \<Rightarrow> bool" where
  "is_define_of x (Defined y b) = (y = x)"
| "is_define_of x (Included f) = False"

definition define_count :: "string \<Rightarrow> pp_event list \<Rightarrow> nat" where
  \<comment> \<open>how often a \<^verbatim>\<open>#define\<close> of \<open>x\<close> has been executed\<close>
  "define_count x tr = length (filter (is_define_of x) tr)"

definition include_count :: "string \<Rightarrow> pp_event list \<Rightarrow> nat" where
  \<comment> \<open>how often an \<^verbatim>\<open>#include\<close> of \<open>f\<close> has been executed\<close>
  "include_count f tr = count_list tr (Included f)"

text \<open>What a theorem may have to ask of the file \<^verbatim>\<open>mpich2io.h\<close>.\<close>

definition keeps_defined :: "string \<Rightarrow> header_effect \<Rightarrow> bool" where
  \<comment> \<open>the file has no \<^verbatim>\<open>#undef x\<close>\<close>
  "keeps_defined x h = (\<forall>e e'. h e = Some e' \<longrightarrow> e x \<noteq> None \<longrightarrow> e' x \<noteq> None)"

definition leaves :: "string list \<Rightarrow> header_effect \<Rightarrow> bool" where
  \<comment> \<open>the file neither defines nor undefines any of \<open>xs\<close>\<close>
  "leaves xs h = (\<forall>e e'. h e = Some e' \<longrightarrow> (\<forall>x \<in> set xs. e' x = e x))"

definition only_adds :: "header_effect \<Rightarrow> bool" where
  \<comment> \<open>the file only defines macros that are not defined yet\<close>
  "only_adds h = (\<forall>e e'. h e = Some e' \<longrightarrow> e \<subseteq>\<^sub>m e')"

text \<open>A supplementary header that brings declarations and no macro.\<close>

definition declarations_only :: header_effect where
  "declarations_only e = Some e"

text \<open>A supplementary header that is not on the include path.\<close>

definition not_found :: header_effect where
  "not_found e = None"

text \<open>The events and the two conditions the properties speak of.\<close>

definition emitted :: "pp_state \<Rightarrow> pp_state \<Rightarrow> pp_event list" where
  \<comment> \<open>the events of a run that starts in \<open>s\<close> and ends in \<open>s'\<close>\<close>
  "emitted s s' = drop (length (trace s)) (trace s')"

definition platform_condition :: "macro_env \<Rightarrow> bool" where
  \<comment> \<open>\<^verbatim>\<open>MS_WINDOWS\<close> is defined\<close>
  "platform_condition e = pp_defined e ''MS_WINDOWS''"

definition version_condition :: "macro_env \<Rightarrow> bool" where
  \<comment> \<open>\<^verbatim>\<open>MPICH2_NUMVERSION\<close> is undefined or its value is less than 10100000\<close>
  "version_condition e =
     (case e ''MPICH2_NUMVERSION'' of
        None \<Rightarrow> True
      | Some Empty \<Rightarrow> False
      | Some (IntLit v) \<Rightarrow> v < 10100000)"

definition gap_reached :: "macro_env \<Rightarrow> bool" where
  \<comment> \<open>lines 6 to 8 are not skipped, given that line 4 is reached\<close>
  "gap_reached e = (pp_defined e ''MS_WINDOWS'' \<and> numversion_test e = Inr True)"

text \<open>
  What the header's own \<^verbatim>\<open>#define\<close> directives make of an environment in which the include
  guard is not defined yet, the events they leave and the errors they draw, written out
  once for the proofs.
\<close>

definition own_macros :: "macro_env \<Rightarrow> macro_env" where
  "own_macros e =
     (if gap_reached e then
        e(''PyMPI_CONFIG_MPICH2_H'' \<mapsto> Empty,
          ''PyMPI_MISSING_MPI_TYPE_CREATE_F90_INTEGER'' \<mapsto> IntLit 1,
          ''PyMPI_MISSING_MPI_TYPE_CREATE_F90_REAL'' \<mapsto> IntLit 1,
          ''PyMPI_MISSING_MPI_TYPE_CREATE_F90_COMPLEX'' \<mapsto> IntLit 1)
      else e(''PyMPI_CONFIG_MPICH2_H'' \<mapsto> Empty))"

definition own_events :: "macro_env \<Rightarrow> pp_event list" where
  "own_events e =
     Defined ''PyMPI_CONFIG_MPICH2_H'' Empty #
     (if gap_reached e then
        [Defined ''PyMPI_MISSING_MPI_TYPE_CREATE_F90_INTEGER'' (IntLit 1),
         Defined ''PyMPI_MISSING_MPI_TYPE_CREATE_F90_REAL'' (IntLit 1),
         Defined ''PyMPI_MISSING_MPI_TYPE_CREATE_F90_COMPLEX'' (IntLit 1)]
      else [])"

definition taken :: "macro_env \<Rightarrow> string \<Rightarrow> bool" where
  \<comment> \<open>a marker is defined already, and not as 1\<close>
  "taken e m = (pp_defined e m \<and> e m \<noteq> Some (IntLit 1))"

definition own_errors :: "bool \<Rightarrow> macro_env \<Rightarrow> pp_error list" where
  "own_errors pedantic e =
     (if pp_defined e ''MS_WINDOWS'' then
        case numversion_test e of
          Inl err \<Rightarrow> [err]
        | Inr old \<Rightarrow>
            (if pedantic \<and> pp_pedantic_operand e ''MPICH2_NUMVERSION''
             then [BadIfExpression ''MPICH2_NUMVERSION''] else []) @
            (if old \<and> pedantic then map Redefinition (filter (taken e) f90_markers) else [])
      else [])"

section \<open>Some builds\<close>

text \<open>
  Macro environments as a compiler hands them to the header: \<^verbatim>\<open>MS_WINDOWS\<close> comes from
  Python's configuration header, \<^verbatim>\<open>MPICH2_NUMVERSION\<close> from the MPI implementation,
  \<^verbatim>\<open>ROMIO_VERSION\<close> from its I/O layer.
\<close>

definition build :: "macro_env \<Rightarrow> pp_state" where
  "build e = \<lparr>macros = e, trace = [], pedantic_errors = False\<rparr>"

definition pedantic_build :: "macro_env \<Rightarrow> pp_state" where
  "pedantic_build e = \<lparr>macros = e, trace = [], pedantic_errors = True\<rparr>"

definition windows_mpich2_108 :: macro_env where
  "windows_mpich2_108 = [''MS_WINDOWS'' \<mapsto> Empty, ''MPICH2_NUMVERSION'' \<mapsto> IntLit 10008300]"

definition windows_mpich2_141 :: macro_env where
  "windows_mpich2_141 = [''MS_WINDOWS'' \<mapsto> Empty, ''MPICH2_NUMVERSION'' \<mapsto> IntLit 10401301]"

definition windows_unversioned :: macro_env where
  "windows_unversioned = [''MS_WINDOWS'' \<mapsto> Empty]"

definition linux_mpich2_108 :: macro_env where
  "linux_mpich2_108 = [''MPICH2_NUMVERSION'' \<mapsto> IntLit 10008300]"

definition with_romio :: "macro_env \<Rightarrow> macro_env" where
  \<comment> \<open>the I/O layer's own header has been read before\<close>
  "with_romio e = e(''ROMIO_VERSION'' \<mapsto> IntLit 126)"

definition reincluded :: "macro_env \<Rightarrow> macro_env" where
  \<comment> \<open>the include guard is defined already when the header is reached\<close>
  "reincluded e = e(''PyMPI_CONFIG_MPICH2_H'' \<mapsto> Empty)"

definition windows_wrapped :: macro_env where
  \<comment> \<open>a version number of \<open>2 ^ 64\<close>\<close>
  "windows_wrapped =
     [''MS_WINDOWS'' \<mapsto> Empty, ''MPICH2_NUMVERSION'' \<mapsto> IntLit 18446744073709551616]"

definition windows_lowest :: macro_env where
  \<comment> \<open>a version number of \<open>- (2 ^ 63)\<close>\<close>
  "windows_lowest =
     [''MS_WINDOWS'' \<mapsto> Empty, ''MPICH2_NUMVERSION'' \<mapsto> IntLit (- 9223372036854775808)]"

definition marker_taken :: macro_env where
  \<comment> \<open>one marker is defined before the header is read, as 0\<close>
  "marker_taken = windows_unversioned(''PyMPI_MISSING_MPI_TYPE_CREATE_F90_REAL'' \<mapsto> IntLit 0)"

section \<open>The pass over the header, written out\<close>

lemma then_pass_simp [simp]:
  "then_pass (s, es) f = (fst (f s), es @ snd (f s))"
  by (simp add: then_pass_def split: prod.splits)

lemma fst_pp_define:
  "fst (pp_define x b s) = s\<lparr>macros := (macros s)(x \<mapsto> b), trace := trace s @ [Defined x b]\<rparr>"
  by (cases s) (auto simp: pp_define_def split: option.splits)

lemma snd_pp_define:
  "snd (pp_define x b s) =
     (if pedantic_errors s \<and> pp_defined (macros s) x \<and> macros s x \<noteq> Some b
      then [Redefinition x] else [])"
  by (auto simp: pp_define_def pp_defined_def split: option.splits)

lemma pp_define_eq:
  "pp_define x b s =
     (s\<lparr>macros := (macros s)(x \<mapsto> b), trace := trace s @ [Defined x b]\<rparr>,
      if pedantic_errors s \<and> pp_defined (macros s) x \<and> macros s x \<noteq> Some b
      then [Redefinition x] else [])"
  by (simp add: prod_eq_iff fst_pp_define snd_pp_define)

lemma numversion_test_cases:
  "numversion_test e = Inl (BadIfExpression ''MPICH2_NUMVERSION'') \<and>
     e ''MPICH2_NUMVERSION'' = Some Empty \<or>
   (\<exists>b. numversion_test e = Inr b) \<and> e ''MPICH2_NUMVERSION'' \<noteq> Some Empty"
  by (auto simp: numversion_test_def pp_operand_def and_then_def
      split: option.splits macro_body.splits)

lemma f90_gap_eq:
  "f90_gap s =
     (if gap_reached (macros s) then
        s\<lparr>macros := (macros s)
             (''PyMPI_MISSING_MPI_TYPE_CREATE_F90_INTEGER'' \<mapsto> IntLit 1,
              ''PyMPI_MISSING_MPI_TYPE_CREATE_F90_REAL'' \<mapsto> IntLit 1,
              ''PyMPI_MISSING_MPI_TYPE_CREATE_F90_COMPLEX'' \<mapsto> IntLit 1),
           trace := trace s @
             [Defined ''PyMPI_MISSING_MPI_TYPE_CREATE_F90_INTEGER'' (IntLit 1),
              Defined ''PyMPI_MISSING_MPI_TYPE_CREATE_F90_REAL'' (IntLit 1),
              Defined ''PyMPI_MISSING_MPI_TYPE_CREATE_F90_COMPLEX'' (IntLit 1)]\<rparr>
      else s,
      own_errors (pedantic_errors s) (macros s))"
proof (cases "pp_defined (macros s) ''MS_WINDOWS''")
  case False
  then show ?thesis
    by (simp add: f90_gap_def gap_reached_def own_errors_def)
next
  case True
  show ?thesis
  proof (cases "numversion_test (macros s)")
    case (Inl err)
    with True show ?thesis
      by (simp add: f90_gap_def gap_reached_def own_errors_def)
  next
    case (Inr old)
    show ?thesis
    proof (cases old)
      case False
      with True Inr show ?thesis
        by (simp add: f90_gap_def gap_reached_def own_errors_def)
    next
      case old: True
      with True Inr show ?thesis
        by (cases s)
          (simp add: f90_gap_def gap_reached_def own_errors_def pp_define_eq
            f90_markers_def taken_def pp_defined_def)
    qed
  qed
qed


lemma numversion_test_guard:
  "numversion_test (e(''PyMPI_CONFIG_MPICH2_H'' \<mapsto> b)) = numversion_test e"
  by (simp add: numversion_test_def pp_operand_def pp_defined_def)

lemma gap_reached_guard:
  "gap_reached (e(''PyMPI_CONFIG_MPICH2_H'' \<mapsto> b)) = gap_reached e"
  by (simp add: gap_reached_def numversion_test_guard pp_defined_def)

lemma taken_guard:
  "filter (taken (e(''PyMPI_CONFIG_MPICH2_H'' \<mapsto> b))) f90_markers = filter (taken e) f90_markers"
  by (simp add: f90_markers_def taken_def pp_defined_def)

lemma pp_pedantic_operand_guard:
  "pp_pedantic_operand (e(''PyMPI_CONFIG_MPICH2_H'' \<mapsto> b)) ''MPICH2_NUMVERSION'' =
   pp_pedantic_operand e ''MPICH2_NUMVERSION''"
  by (simp add: pp_pedantic_operand_def)

lemma own_errors_guard:
  "own_errors p (e(''PyMPI_CONFIG_MPICH2_H'' \<mapsto> b)) = own_errors p e"
proof -
  have "pp_defined (e(''PyMPI_CONFIG_MPICH2_H'' \<mapsto> b)) ''MS_WINDOWS'' = pp_defined e ''MS_WINDOWS''"
    by (simp add: pp_defined_def)
  then show ?thesis
    by (simp only: own_errors_def numversion_test_guard taken_guard pp_pedantic_operand_guard)
qed

lemma mpich2_h_pass_guarded:
  "pp_defined (macros s) ''PyMPI_CONFIG_MPICH2_H'' \<Longrightarrow> mpich2_h_pass h s = (s, [])"
  by (simp add: mpich2_h_pass_def)

lemma mpich2_h_pass_own:
  assumes "\<not> pp_defined (macros s) ''PyMPI_CONFIG_MPICH2_H''"
  shows "then_pass (pp_define ''PyMPI_CONFIG_MPICH2_H'' Empty s) f90_gap =
           (s\<lparr>macros := own_macros (macros s), trace := trace s @ own_events (macros s)\<rparr>,
            own_errors (pedantic_errors s) (macros s))"
  using assms
  by (cases s)
    (simp add: pp_define_eq f90_gap_eq gap_reached_guard own_errors_guard own_macros_def
      own_events_def)

lemma mpich2_h_pass_first:
  assumes "\<not> pp_defined (macros s) ''PyMPI_CONFIG_MPICH2_H''"
  shows "mpich2_h_pass h s =
           (if pp_defined (macros s) ''ROMIO_VERSION'' then
              (s\<lparr>macros := own_macros (macros s), trace := trace s @ own_events (macros s)\<rparr>,
               own_errors (pedantic_errors s) (macros s))
            else
              case h (own_macros (macros s)) of
                None \<Rightarrow>
                  (s\<lparr>macros := own_macros (macros s),
                     trace := trace s @ own_events (macros s) @ [Included ''mpich2io.h'']\<rparr>,
                   own_errors (pedantic_errors s) (macros s) @ [IncludeFailed ''mpich2io.h''])
              | Some e \<Rightarrow>
                  (s\<lparr>macros := e,
                     trace := trace s @ own_events (macros s) @ [Included ''mpich2io.h'']\<rparr>,
                   own_errors (pedantic_errors s) (macros s)))"
proof -
  have romio: "pp_defined (own_macros (macros s)) ''ROMIO_VERSION'' =
      pp_defined (macros s) ''ROMIO_VERSION''"
    by (simp add: own_macros_def pp_defined_def)
  show ?thesis
    using assms
    by (simp add: mpich2_h_pass_def mpich2_h_pass_own romio_include_def pp_include_def romio
        split: option.splits)
qed


section \<open>The test of line 5\<close>

lemma pp_less_in_range:
  assumes "- (2 ^ 63) < v" and "v < 2 ^ 64"
  shows "pp_less (pp_number v) (pp_number 10100000) \<longleftrightarrow> v < 10100000"
proof -
  consider "v < 0" | "0 \<le> v" "v < 2 ^ 63" | "2 ^ 63 \<le> v" by linarith
  then show ?thesis
  proof cases
    case 1
    have "(v + 2 ^ 64) mod 2 ^ 64 = v + 2 ^ 64"
      using assms 1 by (intro mod_pos_pos_trivial) simp_all
    then have "v mod 2 ^ 64 = v + 2 ^ 64" by simp
    with 1 assms show ?thesis
      by (simp add: pp_less_def pp_number_def signed_value_def)
  next
    case 2
    then have "v mod 2 ^ 64 = v" by simp
    with 2 show ?thesis
      by (simp add: pp_less_def pp_number_def signed_value_def)
  next
    case 3
    with assms have "v mod 2 ^ 64 = v" by simp
    with 3 assms show ?thesis
      by (simp add: pp_less_def pp_number_def)
  qed
qed

lemma numversion_test_undefined:
  "e ''MPICH2_NUMVERSION'' = None \<Longrightarrow> numversion_test e = Inr True"
  by (simp add: numversion_test_def pp_operand_def pp_defined_def and_then_def)

lemma numversion_test_in_range:
  assumes "e ''MPICH2_NUMVERSION'' = Some (IntLit v)" and "- (2 ^ 63) < v" and "v < 2 ^ 64"
  shows "numversion_test e = Inr (v < 10100000)"
  using assms pp_less_in_range [of v]
  by (simp add: numversion_test_def pp_operand_def pp_defined_def and_then_def)

lemma numversion_test_version_condition:
  assumes "\<forall>v. e ''MPICH2_NUMVERSION'' = Some (IntLit v) \<longrightarrow> - (2 ^ 63) < v \<and> v < 2 ^ 64"
    and "numversion_test e = Inr b"
  shows "b = version_condition e"
proof (cases "e ''MPICH2_NUMVERSION''")
  case None
  with assms(2) show ?thesis
    by (simp add: numversion_test_undefined version_condition_def)
next
  case (Some body)
  show ?thesis
  proof (cases body)
    case Empty
    with Some assms(2) show ?thesis
      by (simp add: numversion_test_def pp_operand_def and_then_def)
  next
    case (IntLit v)
    with Some assms(1) have "- (2 ^ 63) < v" "v < 2 ^ 64" by simp_all
    with Some IntLit assms(2) show ?thesis
      by (simp add: numversion_test_in_range version_condition_def)
  qed
qed

lemma pp_pedantic_operand_small:
  "e ''MPICH2_NUMVERSION'' = Some (IntLit v) \<Longrightarrow> - (2 ^ 63) < v \<Longrightarrow> v < 2 ^ 63 \<Longrightarrow>
   \<not> pp_pedantic_operand e ''MPICH2_NUMVERSION''"
  by (simp add: pp_pedantic_operand_def pp_pedantic_number_def)

section \<open>What a pass leaves\<close>

lemma emitted_same [simp]: "emitted s s = []"
  by (simp add: emitted_def)

lemma leavesD: "leaves xs h \<Longrightarrow> h e = Some e' \<Longrightarrow> x \<in> set xs \<Longrightarrow> e' x = e x"
  by (simp add: leaves_def)

lemma own_macros_marker:
  "m \<in> set f90_markers \<Longrightarrow>
   own_macros e m = (if gap_reached e then Some (IntLit 1) else e m)"
  by (auto simp: own_macros_def f90_markers_def)

lemma own_macros_guard: "own_macros e ''PyMPI_CONFIG_MPICH2_H'' = Some Empty"
  by (simp add: own_macros_def)

lemma own_macros_other:
  "x \<noteq> ''PyMPI_CONFIG_MPICH2_H'' \<Longrightarrow> x \<notin> set f90_markers \<Longrightarrow> own_macros e x = e x"
  by (simp add: own_macros_def f90_markers_def)

lemma define_count_append:
  "define_count m (xs @ ys) = define_count m xs + define_count m ys"
  by (simp add: define_count_def)

lemma define_count_Included: "define_count m [Included f] = 0"
  by (simp add: define_count_def)

lemma define_count_Nil [simp]: "define_count m [] = 0"
  by (simp add: define_count_def)

lemma include_count_Nil [simp]: "include_count f [] = 0"
  by (simp add: include_count_def)

lemma define_count_own_events:
  "m \<in> set f90_markers \<Longrightarrow>
   define_count m (own_events e) = (if gap_reached e then 1 else 0)"
  by (auto simp: own_events_def define_count_def f90_markers_def)

lemma include_count_append:
  "include_count f (xs @ ys) = include_count f xs + include_count f ys"
  by (simp add: include_count_def)

lemma include_count_own_events: "include_count f (own_events e) = 0"
  by (simp add: own_events_def include_count_def)

lemma include_count_single:
  "include_count ''mpich2io.h'' [Included ''mpich2io.h''] = 1"
  by (simp add: include_count_def)

text \<open>The events of a pass, and the state it leaves.\<close>

lemma pass_emitted:
  "emitted s (fst (mpich2_h_pass h s)) =
     (if pp_defined (macros s) ''PyMPI_CONFIG_MPICH2_H'' then []
      else own_events (macros s) @
        (if pp_defined (macros s) ''ROMIO_VERSION'' then [] else [Included ''mpich2io.h'']))"
  by (simp add: mpich2_h_pass_guarded mpich2_h_pass_first emitted_def split: option.splits)

lemma pass_macros:
  "macros (fst (mpich2_h_pass h s)) =
     (if pp_defined (macros s) ''PyMPI_CONFIG_MPICH2_H'' then macros s
      else if pp_defined (macros s) ''ROMIO_VERSION'' then own_macros (macros s)
      else case h (own_macros (macros s)) of
             None \<Rightarrow> own_macros (macros s)
           | Some e \<Rightarrow> e)"
  by (simp add: mpich2_h_pass_guarded mpich2_h_pass_first split: option.splits)

lemma pass_errors:
  "snd (mpich2_h_pass h s) =
     (if pp_defined (macros s) ''PyMPI_CONFIG_MPICH2_H'' then []
      else own_errors (pedantic_errors s) (macros s) @
        (if \<not> pp_defined (macros s) ''ROMIO_VERSION'' \<and> h (own_macros (macros s)) = None
         then [IncludeFailed ''mpich2io.h''] else []))"
  by (simp add: mpich2_h_pass_guarded mpich2_h_pass_first split: option.splits)

lemma pass_define_count:
  assumes "m \<in> set f90_markers"
  shows "define_count m (emitted s (fst (mpich2_h_pass h s))) =
           (if \<not> pp_defined (macros s) ''PyMPI_CONFIG_MPICH2_H'' \<and> gap_reached (macros s)
            then 1 else 0)"
  using assms
  by (simp add: pass_emitted define_count_append define_count_own_events define_count_Included)

lemma pass_include_count:
  "include_count ''mpich2io.h'' (emitted s (fst (mpich2_h_pass h s))) =
     (if \<not> pp_defined (macros s) ''PyMPI_CONFIG_MPICH2_H'' \<and>
         \<not> pp_defined (macros s) ''ROMIO_VERSION'' then 1 else 0)"
  by (simp add: pass_emitted include_count_append include_count_own_events include_count_single)

lemma pass_marker:
  assumes m: "m \<in> set f90_markers" and lv: "leaves f90_markers h"
  shows "macros (fst (mpich2_h_pass h s)) m =
           (if \<not> pp_defined (macros s) ''PyMPI_CONFIG_MPICH2_H'' \<and> gap_reached (macros s)
            then Some (IntLit 1) else macros s m)"
proof -
  have "macros (fst (mpich2_h_pass h s)) m =
      (if pp_defined (macros s) ''PyMPI_CONFIG_MPICH2_H'' then macros s m
       else own_macros (macros s) m)"
    using leavesD [OF lv _ m]
    by (simp add: pass_macros split: option.splits)
  with m show ?thesis
    by (simp add: own_macros_marker)
qed

lemma pass_guard_after:
  assumes "keeps_defined ''PyMPI_CONFIG_MPICH2_H'' h"
  shows "pp_defined (macros (fst (mpich2_h_pass h s))) ''PyMPI_CONFIG_MPICH2_H''"
proof (cases "pp_defined (macros s) ''PyMPI_CONFIG_MPICH2_H''")
  case True
  then show ?thesis by (simp add: pass_macros)
next
  case False
  have own: "pp_defined (own_macros (macros s)) ''PyMPI_CONFIG_MPICH2_H''"
    by (simp add: own_macros_guard pp_defined_def)
  show ?thesis
  proof (cases "h (own_macros (macros s))")
    case None
    with False own show ?thesis by (simp add: pass_macros)
  next
    case (Some e)
    with assms own have "pp_defined e ''PyMPI_CONFIG_MPICH2_H''"
      unfolding keeps_defined_def pp_defined_def by blast
    with False own Some show ?thesis by (simp add: pass_macros)
  qed
qed

text \<open>The translation, read off the pass.\<close>

lemma mpich2_h_Inr_iff:
  "mpich2_h h s = Inr s' \<longleftrightarrow> fst (mpich2_h_pass h s) = s' \<and> snd (mpich2_h_pass h s) = []"
  by (cases "mpich2_h_pass h s") (simp add: mpich2_h_def split: list.splits)

lemma mpich2_h_Inl_iff:
  "mpich2_h h s = Inl err \<longleftrightarrow> (\<exists>errs. snd (mpich2_h_pass h s) = err # errs)"
  by (cases "mpich2_h_pass h s") (simp add: mpich2_h_def split: list.splits)

lemma mpich2_h_guarded:
  "pp_defined (macros s) ''PyMPI_CONFIG_MPICH2_H'' \<Longrightarrow> mpich2_h h s = Inr s"
  by (simp add: mpich2_h_def mpich2_h_pass_guarded)


lemma mpich2_h_markers:
  assumes run: "mpich2_h h s = Inr s'" and m: "m \<in> set f90_markers"
  shows "define_count m (emitted s s') =
           (if \<not> pp_defined (macros s) ''PyMPI_CONFIG_MPICH2_H'' \<and> gap_reached (macros s)
            then 1 else 0)"
    and "leaves f90_markers h \<Longrightarrow>
         macros s' m =
           (if \<not> pp_defined (macros s) ''PyMPI_CONFIG_MPICH2_H'' \<and> gap_reached (macros s)
            then Some (IntLit 1) else macros s m)"
proof -
  from run have s': "s' = fst (mpich2_h_pass h s)"
    by (simp add: mpich2_h_Inr_iff)
  show "define_count m (emitted s s') =
           (if \<not> pp_defined (macros s) ''PyMPI_CONFIG_MPICH2_H'' \<and> gap_reached (macros s)
            then 1 else 0)"
    unfolding s' by (rule pass_define_count [OF m])
  show "macros s' m =
           (if \<not> pp_defined (macros s) ''PyMPI_CONFIG_MPICH2_H'' \<and> gap_reached (macros s)
            then Some (IntLit 1) else macros s m)"
    if "leaves f90_markers h"
    unfolding s' by (rule pass_marker [OF m that])
qed

lemma mpich2_h_includes:
  assumes run: "mpich2_h h s = Inr s'"
  shows "include_count ''mpich2io.h'' (emitted s s') =
           (if \<not> pp_defined (macros s) ''PyMPI_CONFIG_MPICH2_H'' \<and>
               \<not> pp_defined (macros s) ''ROMIO_VERSION'' then 1 else 0)"
proof -
  from run have s': "s' = fst (mpich2_h_pass h s)"
    by (simp add: mpich2_h_Inr_iff)
  show ?thesis unfolding s' by (rule pass_include_count)
qed

text \<open>Once the header has been read, the guard is defined, unless the included file undoes it.\<close>

lemma mpich2_h_guard_after:
  assumes keeps: "keeps_defined ''PyMPI_CONFIG_MPICH2_H'' h" and run: "mpich2_h h s = Inr s'"
  shows "pp_defined (macros s') ''PyMPI_CONFIG_MPICH2_H''"
proof -
  from run have s': "s' = fst (mpich2_h_pass h s)"
    by (simp add: mpich2_h_Inr_iff)
  show ?thesis unfolding s' by (rule pass_guard_after [OF keeps])
qed

lemma include_times_guarded:
  "pp_defined (macros s) ''PyMPI_CONFIG_MPICH2_H'' \<Longrightarrow> include_times h n s = Inr s"
  by (induction n) (simp_all add: mpich2_h_guarded and_then_def)

lemma include_times_Suc:
  assumes "keeps_defined ''PyMPI_CONFIG_MPICH2_H'' h"
  shows "include_times h (Suc n) s = mpich2_h h s"
proof (cases "mpich2_h h s")
  case (Inl err)
  then show ?thesis by (simp add: and_then_def)
next
  case (Inr s')
  from mpich2_h_guard_after [OF assms Inr] have "include_times h n s' = Inr s'"
    by (rule include_times_guarded)
  with Inr show ?thesis by (simp add: and_then_def)
qed

section \<open>How a translation fails\<close>

lemma own_errors_first:
  assumes "own_errors p e = err # errs"
  shows "pp_defined e ''MS_WINDOWS'' \<and>
         (err = BadIfExpression ''MPICH2_NUMVERSION'' \<and>
            (e ''MPICH2_NUMVERSION'' = Some Empty \<or>
             p \<and> pp_pedantic_operand e ''MPICH2_NUMVERSION'') \<or>
          p \<and> gap_reached e \<and> (\<exists>m \<in> set f90_markers. err = Redefinition m \<and> taken e m))"
proof -
  from assms have ms: "pp_defined e ''MS_WINDOWS''"
    by (simp add: own_errors_def split: if_splits)
  from numversion_test_cases [of e] show ?thesis
  proof (elim disjE conjE exE)
    assume "numversion_test e = Inl (BadIfExpression ''MPICH2_NUMVERSION'')"
      and "e ''MPICH2_NUMVERSION'' = Some Empty"
    with assms ms show ?thesis
      by (simp add: own_errors_def)
  next
    fix b assume b: "numversion_test e = Inr b"
    show ?thesis
    proof (cases "p \<and> pp_pedantic_operand e ''MPICH2_NUMVERSION''")
      case True
      with assms ms b show ?thesis
        by (simp add: own_errors_def)
    next
      case False
      with assms ms b have reds: "b \<and> p"
        and list: "map Redefinition (filter (taken e) f90_markers) = err # errs"
        by (auto simp: own_errors_def split: if_splits)
      from list have "err \<in> set (map Redefinition (filter (taken e) f90_markers))"
        by simp
      then have "\<exists>m \<in> set f90_markers. err = Redefinition m \<and> taken e m"
        by auto
      with ms reds b show ?thesis
        by (simp add: gap_reached_def)
    qed
  qed
qed

lemma mpich2_h_Inl:
  assumes "mpich2_h h s = Inl err"
  shows "\<not> pp_defined (macros s) ''PyMPI_CONFIG_MPICH2_H'' \<and>
         (pp_defined (macros s) ''MS_WINDOWS'' \<and> err = BadIfExpression ''MPICH2_NUMVERSION'' \<and>
            (macros s ''MPICH2_NUMVERSION'' = Some Empty \<or>
             pedantic_errors s \<and> pp_pedantic_operand (macros s) ''MPICH2_NUMVERSION'') \<or>
          pedantic_errors s \<and> gap_reached (macros s) \<and>
            (\<exists>m \<in> set f90_markers.
               err = Redefinition m \<and> pp_defined (macros s) m \<and> macros s m \<noteq> Some (IntLit 1)) \<or>
          \<not> pp_defined (macros s) ''ROMIO_VERSION'' \<and> err = IncludeFailed ''mpich2io.h'')"
proof -
  from assms obtain errs where errs: "snd (mpich2_h_pass h s) = err # errs"
    by (auto simp: mpich2_h_Inl_iff)
  then have guard: "\<not> pp_defined (macros s) ''PyMPI_CONFIG_MPICH2_H''"
    by (auto simp: pass_errors split: if_splits)
  show ?thesis
  proof (cases "own_errors (pedantic_errors s) (macros s)")
    case Nil
    with errs guard show ?thesis
      by (auto simp: pass_errors split: if_splits)
  next
    case (Cons err' errs')
    with errs guard have "err' = err"
      by (simp add: pass_errors)
    with own_errors_first [OF Cons] guard show ?thesis
      by (auto simp: taken_def)
  qed
qed

text \<open>With \<^verbatim>\<open>ROMIO_VERSION\<close> defined, the included file is never looked at.\<close>

lemma mpich2_h_pass_romio_present:
  assumes "pp_defined (macros s) ''ROMIO_VERSION''"
  shows "mpich2_h_pass h s = mpich2_h_pass h' s"
proof (cases "pp_defined (macros s) ''PyMPI_CONFIG_MPICH2_H''")
  case True
  then show ?thesis by (simp add: mpich2_h_pass_guarded)
next
  case False
  with assms show ?thesis by (simp add: mpich2_h_pass_first)
qed


text \<open>
  Where the version number fits the 64 bits and the translation succeeds, lines 6 to 8 are
  reached exactly under the two conditions.
\<close>

lemma mpich2_h_gap_reached:
  assumes run: "mpich2_h h s = Inr s'"
    and guard: "\<not> pp_defined (macros s) ''PyMPI_CONFIG_MPICH2_H''"
    and range: "\<forall>v. macros s ''MPICH2_NUMVERSION'' = Some (IntLit v) \<longrightarrow>
                  - (2 ^ 63) < v \<and> v < 2 ^ 64"
  shows "gap_reached (macros s) \<longleftrightarrow>
           platform_condition (macros s) \<and> version_condition (macros s)"
proof (cases "pp_defined (macros s) ''MS_WINDOWS''")
  case False
  then show ?thesis by (simp add: gap_reached_def platform_condition_def)
next
  case True
  from run guard have none: "own_errors (pedantic_errors s) (macros s) = []"
    by (simp add: mpich2_h_Inr_iff pass_errors)
  from numversion_test_cases [of "macros s"] obtain b
    where b: "numversion_test (macros s) = Inr b"
  proof (elim disjE conjE exE)
    assume "numversion_test (macros s) = Inl (BadIfExpression ''MPICH2_NUMVERSION'')"
    with True none show ?thesis by (simp add: own_errors_def)
  qed
  from numversion_test_version_condition [OF range b] True b show ?thesis
    by (auto simp: gap_reached_def platform_condition_def)
qed

text \<open>What the header's own definitions do to the environment they start from.\<close>

lemma own_macros_new:
  assumes "e x = None" and "own_macros e x = Some b"
  shows "x = ''PyMPI_CONFIG_MPICH2_H'' \<and> b = Empty \<or> x \<in> set f90_markers \<and> b = IntLit 1"
  using assms by (auto simp: own_macros_def f90_markers_def split: if_splits)

lemma own_macros_old:
  assumes guard: "\<not> pp_defined e ''PyMPI_CONFIG_MPICH2_H''" and x: "e x = Some b"
  shows "own_macros e x = Some b \<or>
         x \<in> set f90_markers \<and> b \<noteq> IntLit 1 \<and> own_macros e x = Some (IntLit 1)"
proof (cases "x \<in> set f90_markers")
  case True
  with x show ?thesis by (auto simp: own_macros_marker)
next
  case False
  from guard x have "x \<noteq> ''PyMPI_CONFIG_MPICH2_H''"
    by (auto simp: pp_defined_def)
  with False x show ?thesis by (simp add: own_macros_other)
qed

section \<open>The header at work\<close>

lemmas header_defs =
  mpich2_h_def mpich2_h_pass_def f90_gap_def romio_include_def numversion_test_def
  pp_define_def pp_include_def pp_operand_def pp_pedantic_operand_def pp_pedantic_number_def
  pp_number_def pp_less_def signed_value_def pp_defined_def and_then_def

lemma macros_build: "macros (build e) = e"
  by (simp add: build_def)

lemma run_windows_mpich2_108:
  "mpich2_h declarations_only (build windows_mpich2_108) =
     Inr \<lparr>macros = windows_mpich2_108
            (''PyMPI_CONFIG_MPICH2_H'' \<mapsto> Empty,
             ''PyMPI_MISSING_MPI_TYPE_CREATE_F90_INTEGER'' \<mapsto> IntLit 1,
             ''PyMPI_MISSING_MPI_TYPE_CREATE_F90_REAL'' \<mapsto> IntLit 1,
             ''PyMPI_MISSING_MPI_TYPE_CREATE_F90_COMPLEX'' \<mapsto> IntLit 1),
          trace =
            [Defined ''PyMPI_CONFIG_MPICH2_H'' Empty,
             Defined ''PyMPI_MISSING_MPI_TYPE_CREATE_F90_INTEGER'' (IntLit 1),
             Defined ''PyMPI_MISSING_MPI_TYPE_CREATE_F90_REAL'' (IntLit 1),
             Defined ''PyMPI_MISSING_MPI_TYPE_CREATE_F90_COMPLEX'' (IntLit 1),
             Included ''mpich2io.h''],
          pedantic_errors = False\<rparr>"
  by (simp add: header_defs declarations_only_def build_def windows_mpich2_108_def)

lemma run_windows_unversioned:
  "mpich2_h declarations_only (build windows_unversioned) =
     Inr \<lparr>macros = windows_unversioned
            (''PyMPI_CONFIG_MPICH2_H'' \<mapsto> Empty,
             ''PyMPI_MISSING_MPI_TYPE_CREATE_F90_INTEGER'' \<mapsto> IntLit 1,
             ''PyMPI_MISSING_MPI_TYPE_CREATE_F90_REAL'' \<mapsto> IntLit 1,
             ''PyMPI_MISSING_MPI_TYPE_CREATE_F90_COMPLEX'' \<mapsto> IntLit 1),
          trace =
            [Defined ''PyMPI_CONFIG_MPICH2_H'' Empty,
             Defined ''PyMPI_MISSING_MPI_TYPE_CREATE_F90_INTEGER'' (IntLit 1),
             Defined ''PyMPI_MISSING_MPI_TYPE_CREATE_F90_REAL'' (IntLit 1),
             Defined ''PyMPI_MISSING_MPI_TYPE_CREATE_F90_COMPLEX'' (IntLit 1),
             Included ''mpich2io.h''],
          pedantic_errors = False\<rparr>"
  by (simp add: header_defs declarations_only_def build_def windows_unversioned_def)

lemma run_windows_mpich2_141:
  "mpich2_h declarations_only (build windows_mpich2_141) =
     Inr \<lparr>macros = windows_mpich2_141(''PyMPI_CONFIG_MPICH2_H'' \<mapsto> Empty),
          trace = [Defined ''PyMPI_CONFIG_MPICH2_H'' Empty, Included ''mpich2io.h''],
          pedantic_errors = False\<rparr>"
  by (simp add: header_defs declarations_only_def build_def windows_mpich2_141_def)

lemma run_linux_mpich2_108:
  "mpich2_h declarations_only (build linux_mpich2_108) =
     Inr \<lparr>macros = linux_mpich2_108(''PyMPI_CONFIG_MPICH2_H'' \<mapsto> Empty),
          trace = [Defined ''PyMPI_CONFIG_MPICH2_H'' Empty, Included ''mpich2io.h''],
          pedantic_errors = False\<rparr>"
  by (simp add: header_defs declarations_only_def build_def linux_mpich2_108_def)

lemma run_with_romio:
  "mpich2_h declarations_only (build (with_romio windows_mpich2_108)) =
     Inr \<lparr>macros = (with_romio windows_mpich2_108)
            (''PyMPI_CONFIG_MPICH2_H'' \<mapsto> Empty,
             ''PyMPI_MISSING_MPI_TYPE_CREATE_F90_INTEGER'' \<mapsto> IntLit 1,
             ''PyMPI_MISSING_MPI_TYPE_CREATE_F90_REAL'' \<mapsto> IntLit 1,
             ''PyMPI_MISSING_MPI_TYPE_CREATE_F90_COMPLEX'' \<mapsto> IntLit 1),
          trace =
            [Defined ''PyMPI_CONFIG_MPICH2_H'' Empty,
             Defined ''PyMPI_MISSING_MPI_TYPE_CREATE_F90_INTEGER'' (IntLit 1),
             Defined ''PyMPI_MISSING_MPI_TYPE_CREATE_F90_REAL'' (IntLit 1),
             Defined ''PyMPI_MISSING_MPI_TYPE_CREATE_F90_COMPLEX'' (IntLit 1)],
          pedantic_errors = False\<rparr>"
  by (simp add: header_defs declarations_only_def build_def windows_mpich2_108_def with_romio_def)

text \<open>
  The 64 bits of line 5: a version number of \<open>2 ^ 64\<close> is read as 0 and the markers are
  defined; one of \<open>- (2 ^ 63)\<close> is compared as the unsigned \<open>2 ^ 63\<close> and they are not.
\<close>

lemma run_windows_wrapped:
  "mpich2_h declarations_only (build windows_wrapped) =
     Inr \<lparr>macros = windows_wrapped
            (''PyMPI_CONFIG_MPICH2_H'' \<mapsto> Empty,
             ''PyMPI_MISSING_MPI_TYPE_CREATE_F90_INTEGER'' \<mapsto> IntLit 1,
             ''PyMPI_MISSING_MPI_TYPE_CREATE_F90_REAL'' \<mapsto> IntLit 1,
             ''PyMPI_MISSING_MPI_TYPE_CREATE_F90_COMPLEX'' \<mapsto> IntLit 1),
          trace =
            [Defined ''PyMPI_CONFIG_MPICH2_H'' Empty,
             Defined ''PyMPI_MISSING_MPI_TYPE_CREATE_F90_INTEGER'' (IntLit 1),
             Defined ''PyMPI_MISSING_MPI_TYPE_CREATE_F90_REAL'' (IntLit 1),
             Defined ''PyMPI_MISSING_MPI_TYPE_CREATE_F90_COMPLEX'' (IntLit 1),
             Included ''mpich2io.h''],
          pedantic_errors = False\<rparr>"
  by (simp add: header_defs declarations_only_def build_def windows_wrapped_def)

lemma run_windows_lowest:
  "mpich2_h declarations_only (build windows_lowest) =
     Inr \<lparr>macros = windows_lowest(''PyMPI_CONFIG_MPICH2_H'' \<mapsto> Empty),
          trace = [Defined ''PyMPI_CONFIG_MPICH2_H'' Empty, Included ''mpich2io.h''],
          pedantic_errors = False\<rparr>"
  by (simp add: header_defs declarations_only_def build_def windows_lowest_def)

text \<open>
  A marker that is defined with another body is defined anew; under
  \<^verbatim>\<open>-pedantic-errors\<close> the translation fails for it.
\<close>

lemma run_marker_taken:
  "mpich2_h declarations_only (build marker_taken) =
     Inr \<lparr>macros = marker_taken
            (''PyMPI_CONFIG_MPICH2_H'' \<mapsto> Empty,
             ''PyMPI_MISSING_MPI_TYPE_CREATE_F90_INTEGER'' \<mapsto> IntLit 1,
             ''PyMPI_MISSING_MPI_TYPE_CREATE_F90_REAL'' \<mapsto> IntLit 1,
             ''PyMPI_MISSING_MPI_TYPE_CREATE_F90_COMPLEX'' \<mapsto> IntLit 1),
          trace =
            [Defined ''PyMPI_CONFIG_MPICH2_H'' Empty,
             Defined ''PyMPI_MISSING_MPI_TYPE_CREATE_F90_INTEGER'' (IntLit 1),
             Defined ''PyMPI_MISSING_MPI_TYPE_CREATE_F90_REAL'' (IntLit 1),
             Defined ''PyMPI_MISSING_MPI_TYPE_CREATE_F90_COMPLEX'' (IntLit 1),
             Included ''mpich2io.h''],
          pedantic_errors = False\<rparr>"
  by (simp add: header_defs declarations_only_def build_def marker_taken_def windows_unversioned_def)

lemma run_marker_taken_pedantic:
  "mpich2_h declarations_only (pedantic_build marker_taken) =
   Inl (Redefinition ''PyMPI_MISSING_MPI_TYPE_CREATE_F90_REAL'')"
  by (simp add: header_defs declarations_only_def pedantic_build_def marker_taken_def
      windows_unversioned_def)

lemma run_windows_wrapped_pedantic:
  "mpich2_h declarations_only (pedantic_build windows_wrapped) =
   Inl (BadIfExpression ''MPICH2_NUMVERSION'')"
  by (simp add: header_defs declarations_only_def pedantic_build_def windows_wrapped_def)

text \<open>The two errors of every build.\<close>

lemma run_empty_version:
  "mpich2_h declarations_only
     (build [''MS_WINDOWS'' \<mapsto> Empty, ''MPICH2_NUMVERSION'' \<mapsto> Empty]) =
   Inl (BadIfExpression ''MPICH2_NUMVERSION'')"
  by (simp add: header_defs declarations_only_def build_def)

lemma run_not_found:
  "mpich2_h not_found (build linux_mpich2_108) = Inl (IncludeFailed ''mpich2io.h'')"
  by (simp add: header_defs build_def linux_mpich2_108_def not_found_def)

text \<open>A header that is reached with its guard defined does nothing.\<close>

lemma run_reincluded:
  "mpich2_h h (build (reincluded e)) = Inr (build (reincluded e))"
  by (simp add: mpich2_h_guarded build_def reincluded_def pp_defined_def)

lemma declarations_only_leaves: "leaves xs declarations_only"
  by (simp add: leaves_def declarations_only_def)

lemma declarations_only_keeps: "keeps_defined x declarations_only"
  by (simp add: keeps_defined_def declarations_only_def)

lemma declarations_only_adds: "only_adds declarations_only"
  by (simp add: only_adds_def declarations_only_def)


section \<open>The capability-absence markers\<close>

text \<open>
  Claim C2, as amended. On Windows with an MPICH2 whose version number is below 10100000
  and above \<open>- (2 ^ 63)\<close>, and with the include guard not defined yet, the header executes
  the \<^verbatim>\<open>#define\<close> of each of the three markers exactly once, and each marker is defined as
  1 afterwards when \<^verbatim>\<open>mpich2io.h\<close> does not touch the markers. The translation can fail in
  two ways only: under \<^verbatim>\<open>-pedantic-errors\<close> a marker is already defined with another body,
  or \<^verbatim>\<open>mpich2io.h\<close> cannot be processed.
\<close>

theorem below_threshold_defines_markers:
  assumes "\<not> pp_defined (macros s) ''PyMPI_CONFIG_MPICH2_H''"
    and "pp_defined (macros s) ''MS_WINDOWS''"
    and "macros s ''MPICH2_NUMVERSION'' = Some (IntLit v)"
    and "- (2 ^ 63) < v" and "v < 10100000"
  shows "case mpich2_h h s of
           Inl err \<Rightarrow>
             err = IncludeFailed ''mpich2io.h'' \<or>
             (\<exists>m \<in> set f90_markers.
                err = Redefinition m \<and> pp_defined (macros s) m \<and> macros s m \<noteq> Some (IntLit 1))
         | Inr s' \<Rightarrow>
             \<forall>m \<in> set f90_markers.
               define_count m (emitted s s') = 1 \<and>
               (leaves f90_markers h \<longrightarrow> macros s' m = Some (IntLit 1))"
proof (cases "mpich2_h h s")
  case (Inl err)
  have "(10100000::int) < 2 ^ 63" by simp
  with assms(5) have "v < 2 ^ 63" by (rule less_trans)
  with assms(3,4) have "\<not> pp_pedantic_operand (macros s) ''MPICH2_NUMVERSION''"
    by (intro pp_pedantic_operand_small)
  with mpich2_h_Inl [OF Inl] assms(3) show ?thesis
    by (auto simp: Inl)
next
  case (Inr s')
  have "(10100000::int) < 2 ^ 64" by simp
  with assms(5) have "v < 2 ^ 64" by (rule less_trans)
  with assms(3,4) have "numversion_test (macros s) = Inr (v < 10100000)"
    by (intro numversion_test_in_range)
  with assms(2,5) have "gap_reached (macros s)"
    by (simp add: gap_reached_def)
  with mpich2_h_markers [OF Inr] assms(1) show ?thesis
    by (simp add: Inr)
qed

text \<open>
  The claim as it is written has no condition on the include guard, and fails where the
  guard is defined when the header is reached: nothing is defined then. (It has no lower
  bound on the version number either: see \<open>run_windows_lowest\<close>.)
\<close>

theorem below_threshold_guarded:
  "pp_defined (reincluded windows_mpich2_108) ''MS_WINDOWS'' \<and>
   reincluded windows_mpich2_108 ''MPICH2_NUMVERSION'' = Some (IntLit 10008300) \<and>
   (10008300::int) < 10100000 \<and>
   mpich2_h declarations_only (build (reincluded windows_mpich2_108)) =
     Inr (build (reincluded windows_mpich2_108)) \<and>
   \<not> pp_defined (macros (build (reincluded windows_mpich2_108)))
       ''PyMPI_MISSING_MPI_TYPE_CREATE_F90_INTEGER''"
  by (simp add: run_reincluded)
    (simp add: reincluded_def windows_mpich2_108_def build_def pp_defined_def)

theorem below_threshold_defines_markers_witness:
  "case mpich2_h declarations_only (build windows_mpich2_108) of
     Inl err \<Rightarrow> False
   | Inr s' \<Rightarrow>
       list_all (\<lambda>m. define_count m (emitted (build windows_mpich2_108) s') = 1 \<and>
                     macros s' m = Some (IntLit 1)) f90_markers"
proof -
  have "\<not> pp_defined (macros (build windows_mpich2_108)) ''PyMPI_CONFIG_MPICH2_H''"
    and "pp_defined (macros (build windows_mpich2_108)) ''MS_WINDOWS''"
    and "macros (build windows_mpich2_108) ''MPICH2_NUMVERSION'' = Some (IntLit 10008300)"
    and "- (2 ^ 63) < (10008300::int)"
    and "(10008300::int) < 10100000"
    by (simp_all add: build_def windows_mpich2_108_def pp_defined_def)
  from below_threshold_defines_markers [OF this, of declarations_only]
  show ?thesis
    by (simp add: run_windows_mpich2_108 declarations_only_leaves list_all_iff)
qed

text \<open>
  Claim C3, as amended. On Windows with an MPICH2 whose version number is 10100000 or more
  and below \<open>2 ^ 64\<close>, the header executes no \<^verbatim>\<open>#define\<close> of a marker, whatever else the
  environment holds, and each marker is afterwards what it was before (undefined, if it
  was) when \<^verbatim>\<open>mpich2io.h\<close> does not touch the markers. The translation can fail in two ways
  only: \<^verbatim>\<open>mpich2io.h\<close> cannot be processed, or, under \<^verbatim>\<open>-pedantic-errors\<close>, the version
  number is \<open>2 ^ 63\<close> or more.
\<close>

theorem at_threshold_defines_no_marker:
  assumes "pp_defined (macros s) ''MS_WINDOWS''"
    and "macros s ''MPICH2_NUMVERSION'' = Some (IntLit v)"
    and "10100000 \<le> v" and "v < 2 ^ 64"
  shows "case mpich2_h h s of
           Inl err \<Rightarrow>
             err = IncludeFailed ''mpich2io.h'' \<or>
             err = BadIfExpression ''MPICH2_NUMVERSION'' \<and> pedantic_errors s \<and> 2 ^ 63 \<le> v
         | Inr s' \<Rightarrow>
             \<forall>m \<in> set f90_markers.
               define_count m (emitted s s') = 0 \<and>
               (leaves f90_markers h \<longrightarrow> macros s' m = macros s m)"
proof -
  have test: "numversion_test (macros s) = Inr (v < 10100000)"
    using assms(2-4) by (intro numversion_test_in_range) simp_all
  with assms(3) have skipped: "\<not> gap_reached (macros s)"
    by (simp add: gap_reached_def)
  show ?thesis
  proof (cases "mpich2_h h s")
    case (Inl err)
    from mpich2_h_Inl [OF Inl] assms(2,3) skipped show ?thesis
      by (auto simp: Inl pp_pedantic_operand_def pp_pedantic_number_def)
  next
    case (Inr s')
    from mpich2_h_markers [OF Inr] skipped show ?thesis
      by (simp add: Inr)
  qed
qed

text \<open>
  The claim as it is written has no upper bound on the version number, and fails where
  the number does not fit 64 bits: \<open>2 ^ 64\<close> is read as 0, which is below the threshold,
  and the three markers are defined.
\<close>

theorem at_threshold_wrapped:
  "pp_defined (macros (build windows_wrapped)) ''MS_WINDOWS'' \<and>
   macros (build windows_wrapped) ''MPICH2_NUMVERSION'' = Some (IntLit 18446744073709551616) \<and>
   (10100000::int) \<le> 18446744073709551616 \<and>
   mpich2_h declarations_only (build windows_wrapped) =
     Inr \<lparr>macros = windows_wrapped
            (''PyMPI_CONFIG_MPICH2_H'' \<mapsto> Empty,
             ''PyMPI_MISSING_MPI_TYPE_CREATE_F90_INTEGER'' \<mapsto> IntLit 1,
             ''PyMPI_MISSING_MPI_TYPE_CREATE_F90_REAL'' \<mapsto> IntLit 1,
             ''PyMPI_MISSING_MPI_TYPE_CREATE_F90_COMPLEX'' \<mapsto> IntLit 1),
          trace =
            [Defined ''PyMPI_CONFIG_MPICH2_H'' Empty,
             Defined ''PyMPI_MISSING_MPI_TYPE_CREATE_F90_INTEGER'' (IntLit 1),
             Defined ''PyMPI_MISSING_MPI_TYPE_CREATE_F90_REAL'' (IntLit 1),
             Defined ''PyMPI_MISSING_MPI_TYPE_CREATE_F90_COMPLEX'' (IntLit 1),
             Included ''mpich2io.h''],
          pedantic_errors = False\<rparr>"
  by (simp add: run_windows_wrapped)
    (simp add: build_def windows_wrapped_def pp_defined_def)

theorem at_threshold_defines_no_marker_witness:
  "case mpich2_h declarations_only (build windows_mpich2_141) of
     Inl err \<Rightarrow> False
   | Inr s' \<Rightarrow>
       list_all (\<lambda>m. define_count m (emitted (build windows_mpich2_141) s') = 0 \<and>
                     macros s' m = None) f90_markers"
proof -
  have "pp_defined (macros (build windows_mpich2_141)) ''MS_WINDOWS''"
    and "macros (build windows_mpich2_141) ''MPICH2_NUMVERSION'' = Some (IntLit 10401301)"
    and "(10100000::int) \<le> 10401301"
    and "(10401301::int) < 2 ^ 64"
    by (simp_all add: build_def windows_mpich2_141_def pp_defined_def)
  from at_threshold_defines_no_marker [OF this, of declarations_only]
  show ?thesis
    by (simp add: run_windows_mpich2_141 declarations_only_leaves list_all_iff)
      (simp add: build_def windows_mpich2_141_def f90_markers_def)
qed

text \<open>
  Claim C4. Where \<^verbatim>\<open>MS_WINDOWS\<close> is not defined, the header executes no \<^verbatim>\<open>#define\<close> of a
  marker, whether \<^verbatim>\<open>MPICH2_NUMVERSION\<close> is defined or not and whatever its body, and each
  marker is afterwards what it was before when \<^verbatim>\<open>mpich2io.h\<close> does not touch the markers.
  Translation can only stop because \<^verbatim>\<open>mpich2io.h\<close> cannot be processed.
\<close>

theorem other_platform_defines_no_marker:
  assumes "\<not> pp_defined (macros s) ''MS_WINDOWS''"
  shows "case mpich2_h h s of
           Inl err \<Rightarrow> err = IncludeFailed ''mpich2io.h''
         | Inr s' \<Rightarrow>
             \<forall>m \<in> set f90_markers.
               define_count m (emitted s s') = 0 \<and>
               (leaves f90_markers h \<longrightarrow> macros s' m = macros s m)"
proof (cases "mpich2_h h s")
  case (Inl err)
  from mpich2_h_Inl [OF Inl] assms show ?thesis
    by (auto simp: Inl gap_reached_def)
next
  case (Inr s')
  have "\<not> gap_reached (macros s)"
    using assms by (simp add: gap_reached_def)
  with mpich2_h_markers [OF Inr] show ?thesis
    by (simp add: Inr)
qed

theorem other_platform_defines_no_marker_witness:
  "case mpich2_h declarations_only (build linux_mpich2_108) of
     Inl err \<Rightarrow> False
   | Inr s' \<Rightarrow>
       list_all (\<lambda>m. define_count m (emitted (build linux_mpich2_108) s') = 0 \<and>
                     macros s' m = None) f90_markers"
proof -
  have "\<not> pp_defined (macros (build linux_mpich2_108)) ''MS_WINDOWS''"
    by (simp add: build_def linux_mpich2_108_def pp_defined_def)
  from other_platform_defines_no_marker [OF this, of declarations_only]
  show ?thesis
    by (simp add: run_linux_mpich2_108 declarations_only_leaves list_all_iff)
      (simp add: build_def linux_mpich2_108_def f90_markers_def)
qed

text \<open>
  Claim C5, as amended. On Windows with \<^verbatim>\<open>MPICH2_NUMVERSION\<close> not defined at all, the test of
  line 5 is true, as for a version below the threshold; with the include guard not defined
  yet, the header then executes the \<^verbatim>\<open>#define\<close> of each of the three markers exactly once,
  and each marker is defined as 1 afterwards when \<^verbatim>\<open>mpich2io.h\<close> does not touch the
  markers. Translation can stop before that in two ways only: a marker is already defined
  with another body, or \<^verbatim>\<open>mpich2io.h\<close> cannot be processed.
\<close>

theorem unversioned_defines_markers:
  assumes "\<not> pp_defined (macros s) ''PyMPI_CONFIG_MPICH2_H''"
    and "pp_defined (macros s) ''MS_WINDOWS''"
    and "\<not> pp_defined (macros s) ''MPICH2_NUMVERSION''"
  shows "numversion_test (macros s) = Inr True \<and>
         (case mpich2_h h s of
            Inl err \<Rightarrow>
              err = IncludeFailed ''mpich2io.h'' \<or>
              (\<exists>m \<in> set f90_markers.
                 err = Redefinition m \<and> pp_defined (macros s) m \<and> macros s m \<noteq> Some (IntLit 1))
          | Inr s' \<Rightarrow>
              \<forall>m \<in> set f90_markers.
                define_count m (emitted s s') = 1 \<and>
                (leaves f90_markers h \<longrightarrow> macros s' m = Some (IntLit 1)))"
proof
  have undefined: "macros s ''MPICH2_NUMVERSION'' = None"
    using assms(3) by (simp add: pp_defined_def)
  then show test: "numversion_test (macros s) = Inr True"
    by (rule numversion_test_undefined)
  show "case mpich2_h h s of
            Inl err \<Rightarrow>
              err = IncludeFailed ''mpich2io.h'' \<or>
              (\<exists>m \<in> set f90_markers.
                 err = Redefinition m \<and> pp_defined (macros s) m \<and> macros s m \<noteq> Some (IntLit 1))
          | Inr s' \<Rightarrow>
              \<forall>m \<in> set f90_markers.
                define_count m (emitted s s') = 1 \<and>
                (leaves f90_markers h \<longrightarrow> macros s' m = Some (IntLit 1))"
  proof (cases "mpich2_h h s")
    case (Inl err)
    from mpich2_h_Inl [OF Inl] undefined show ?thesis
      by (auto simp: Inl pp_pedantic_operand_def)
  next
    case (Inr s')
    have "gap_reached (macros s)"
      using assms(2) test by (simp add: gap_reached_def)
    with mpich2_h_markers [OF Inr] assms(1) show ?thesis
      by (simp add: Inr)
  qed
qed

text \<open>
  The claim as it is written has no condition on the include guard, and fails where the
  guard is defined when the header is reached.
\<close>

theorem unversioned_guarded:
  "pp_defined (reincluded windows_unversioned) ''MS_WINDOWS'' \<and>
   \<not> pp_defined (reincluded windows_unversioned) ''MPICH2_NUMVERSION'' \<and>
   mpich2_h declarations_only (build (reincluded windows_unversioned)) =
     Inr (build (reincluded windows_unversioned)) \<and>
   \<not> pp_defined (macros (build (reincluded windows_unversioned)))
       ''PyMPI_MISSING_MPI_TYPE_CREATE_F90_REAL''"
  by (simp add: run_reincluded)
    (simp add: reincluded_def windows_unversioned_def build_def pp_defined_def)

theorem unversioned_defines_markers_witness:
  "numversion_test (macros (build windows_unversioned)) = Inr True \<and>
   (case mpich2_h declarations_only (build windows_unversioned) of
      Inl err \<Rightarrow> False
    | Inr s' \<Rightarrow>
        list_all (\<lambda>m. define_count m (emitted (build windows_unversioned) s') = 1 \<and>
                      macros s' m = Some (IntLit 1)) f90_markers)"
proof -
  have "\<not> pp_defined (macros (build windows_unversioned)) ''PyMPI_CONFIG_MPICH2_H''"
    and "pp_defined (macros (build windows_unversioned)) ''MS_WINDOWS''"
    and "\<not> pp_defined (macros (build windows_unversioned)) ''MPICH2_NUMVERSION''"
    by (simp_all add: build_def windows_unversioned_def pp_defined_def)
  from unversioned_defines_markers [OF this, of declarations_only]
  show ?thesis
    by (simp add: run_windows_unversioned declarations_only_leaves list_all_iff)
qed


section \<open>The supplementary header\<close>

text \<open>
  Claim C6. Where \<^verbatim>\<open>ROMIO_VERSION\<close> is defined before the header is processed, the header
  does not include \<^verbatim>\<open>mpich2io.h\<close>: the outcome is the same whatever that file is, a
  successful run has no inclusion among its events, and a failed run has not failed
  at the \<^verbatim>\<open>#include\<close>.
\<close>

theorem romio_present_no_include:
  assumes "pp_defined (macros s) ''ROMIO_VERSION''"
  shows "mpich2_h h s = mpich2_h h' s \<and>
         (case mpich2_h h s of
            Inl err \<Rightarrow> err \<noteq> IncludeFailed ''mpich2io.h''
          | Inr s' \<Rightarrow> include_count ''mpich2io.h'' (emitted s s') = 0)"
proof
  show "mpich2_h h s = mpich2_h h' s"
    by (simp only: mpich2_h_def mpich2_h_pass_romio_present [OF assms, of h h'])
  show "case mpich2_h h s of
            Inl err \<Rightarrow> err \<noteq> IncludeFailed ''mpich2io.h''
          | Inr s' \<Rightarrow> include_count ''mpich2io.h'' (emitted s s') = 0"
  proof (cases "mpich2_h h s")
    case (Inl err)
    from mpich2_h_Inl [OF Inl] assms show ?thesis
      by (auto simp: Inl)
  next
    case (Inr s')
    from mpich2_h_includes [OF Inr] assms show ?thesis
      by (simp add: Inr)
  qed
qed

theorem romio_present_no_include_witness:
  "mpich2_h not_found (build (with_romio windows_mpich2_108)) =
     mpich2_h declarations_only (build (with_romio windows_mpich2_108)) \<and>
   (case mpich2_h declarations_only (build (with_romio windows_mpich2_108)) of
      Inl err \<Rightarrow> False
    | Inr s' \<Rightarrow>
        include_count ''mpich2io.h'' (emitted (build (with_romio windows_mpich2_108)) s') = 0)"
proof -
  have "pp_defined (macros (build (with_romio windows_mpich2_108))) ''ROMIO_VERSION''"
    by (simp add: build_def with_romio_def pp_defined_def)
  note here = romio_present_no_include [OF this, of declarations_only not_found]
  from here [THEN conjunct1]
  have "mpich2_h not_found (build (with_romio windows_mpich2_108)) =
      mpich2_h declarations_only (build (with_romio windows_mpich2_108))"
    by (rule sym)
  moreover from here [THEN conjunct2] have
    "case mpich2_h declarations_only (build (with_romio windows_mpich2_108)) of
       Inl err \<Rightarrow> False
     | Inr s' \<Rightarrow>
         include_count ''mpich2io.h'' (emitted (build (with_romio windows_mpich2_108)) s') = 0"
    by (simp add: run_with_romio)
  ultimately show ?thesis by (rule conjI)
qed

text \<open>
  Claim C7, as amended. Where neither \<^verbatim>\<open>ROMIO_VERSION\<close> nor the include guard is defined
  when the header is first processed, and \<^verbatim>\<open>mpich2io.h\<close> does not undefine the guard, a
  compilation unit that names the header once or more often includes \<^verbatim>\<open>mpich2io.h\<close> exactly
  once, if translation gets through; it can stop at the \<^verbatim>\<open>#if\<close> of line 5, at the
  \<^verbatim>\<open>#define\<close> of a marker or at the \<^verbatim>\<open>#include\<close>.
\<close>

theorem romio_absent_included_once:
  assumes "\<not> pp_defined (macros s) ''PyMPI_CONFIG_MPICH2_H''"
    and "\<not> pp_defined (macros s) ''ROMIO_VERSION''"
    and "keeps_defined ''PyMPI_CONFIG_MPICH2_H'' h"
  shows "case include_times h (Suc n) s of
           Inl err \<Rightarrow>
             err = BadIfExpression ''MPICH2_NUMVERSION'' \<or>
             (\<exists>m \<in> set f90_markers. err = Redefinition m) \<or>
             err = IncludeFailed ''mpich2io.h''
         | Inr s' \<Rightarrow> include_count ''mpich2io.h'' (emitted s s') = 1"
proof -
  have once: "include_times h (Suc n) s = mpich2_h h s"
    by (rule include_times_Suc [OF assms(3)])
  show ?thesis
  proof (cases "mpich2_h h s")
    case (Inl err)
    from mpich2_h_Inl [OF Inl] show ?thesis
      unfolding once by (auto simp: Inl)
  next
    case (Inr s')
    from mpich2_h_includes [OF Inr] assms(1,2) show ?thesis
      unfolding once by (simp add: Inr)
  qed
qed

text \<open>
  The claim as it is written has no condition on the include guard, and fails where the
  guard is defined when the header is first reached: the file is then never included.
\<close>

theorem included_once_guarded:
  "\<not> pp_defined (macros (build (reincluded linux_mpich2_108))) ''ROMIO_VERSION'' \<and>
   include_times declarations_only (Suc (Suc 0)) (build (reincluded linux_mpich2_108)) =
     Inr (build (reincluded linux_mpich2_108)) \<and>
   include_count ''mpich2io.h'' (trace (build (reincluded linux_mpich2_108))) = 0"
  by (simp add: run_reincluded and_then_def)
    (simp add: build_def reincluded_def linux_mpich2_108_def pp_defined_def)

theorem romio_absent_included_once_witness:
  "case include_times declarations_only (Suc (Suc 0)) (build linux_mpich2_108) of
     Inl err \<Rightarrow> False
   | Inr s' \<Rightarrow> include_count ''mpich2io.h'' (emitted (build linux_mpich2_108) s') = 1"
proof -
  have "\<not> pp_defined (macros (build linux_mpich2_108)) ''PyMPI_CONFIG_MPICH2_H''"
    and "\<not> pp_defined (macros (build linux_mpich2_108)) ''ROMIO_VERSION''"
    by (simp_all add: build_def linux_mpich2_108_def pp_defined_def)
  from romio_absent_included_once [OF this declarations_only_keeps, of "Suc 0"]
  show ?thesis
    by (simp add: run_linux_mpich2_108 and_then_def mpich2_h_guarded pp_defined_def)
qed

section \<open>The include guard\<close>

text \<open>
  Claim C8. Processing the header twice in a row ends as processing it once does: in the
  same state, macros and events alike, or with the same diagnostic. This holds from every
  initial state, for every \<^verbatim>\<open>mpich2io.h\<close> that does not undefine the include guard.
\<close>

theorem mpich2_h_idempotent:
  assumes "keeps_defined ''PyMPI_CONFIG_MPICH2_H'' h"
  shows "and_then (mpich2_h h s) (mpich2_h h) = mpich2_h h s"
proof (cases "mpich2_h h s")
  case (Inl err)
  then show ?thesis by (simp add: and_then_def)
next
  case (Inr s')
  from mpich2_h_guard_after [OF assms Inr] have "mpich2_h h s' = Inr s'"
    by (rule mpich2_h_guarded)
  with Inr show ?thesis by (simp add: and_then_def)
qed

theorem mpich2_h_idempotent_witness:
  "keeps_defined ''PyMPI_CONFIG_MPICH2_H'' declarations_only \<and>
   and_then (mpich2_h declarations_only (build windows_unversioned))
     (mpich2_h declarations_only) =
     Inr \<lparr>macros = windows_unversioned
            (''PyMPI_CONFIG_MPICH2_H'' \<mapsto> Empty,
             ''PyMPI_MISSING_MPI_TYPE_CREATE_F90_INTEGER'' \<mapsto> IntLit 1,
             ''PyMPI_MISSING_MPI_TYPE_CREATE_F90_REAL'' \<mapsto> IntLit 1,
             ''PyMPI_MISSING_MPI_TYPE_CREATE_F90_COMPLEX'' \<mapsto> IntLit 1),
          trace =
            [Defined ''PyMPI_CONFIG_MPICH2_H'' Empty,
             Defined ''PyMPI_MISSING_MPI_TYPE_CREATE_F90_INTEGER'' (IntLit 1),
             Defined ''PyMPI_MISSING_MPI_TYPE_CREATE_F90_REAL'' (IntLit 1),
             Defined ''PyMPI_MISSING_MPI_TYPE_CREATE_F90_COMPLEX'' (IntLit 1),
             Included ''mpich2io.h''],
          pedantic_errors = False\<rparr>"
  using mpich2_h_idempotent [OF declarations_only_keeps, of "build windows_unversioned"]
  by (simp add: run_windows_unversioned declarations_only_keeps)



section \<open>The invariant of the markers\<close>

text \<open>
  Claim C1, as amended. Take an initial environment in which the include guard is not
  defined and \<^verbatim>\<open>MPICH2_NUMVERSION\<close>, if it is defined as a number, lies above \<open>- (2 ^ 63)\<close> and
  below \<open>2 ^ 64\<close>. A translation of the header that succeeds executes the \<^verbatim>\<open>#define\<close> of each
  of the three markers if and only if \<^verbatim>\<open>MS_WINDOWS\<close> is defined and \<^verbatim>\<open>MPICH2_NUMVERSION\<close> is
  undefined or has a value below 10100000; so a marker that was not defined before is
  defined afterwards if and only if both conditions hold, when \<^verbatim>\<open>mpich2io.h\<close> does not touch
  the markers. The translation can fail at the \<^verbatim>\<open>#if\<close> of line 5, at the \<^verbatim>\<open>#define\<close> of a
  marker or at the \<^verbatim>\<open>#include\<close>. And from every initial state, if \<^verbatim>\<open>mpich2io.h\<close> does not
  undefine the include guard, a unit that names the header any number of times executes the
  \<^verbatim>\<open>#define\<close> of each marker at most once.
\<close>

theorem markers_iff_conditions:
  "(\<not> pp_defined (macros s) ''PyMPI_CONFIG_MPICH2_H'' \<and>
    (\<forall>v. macros s ''MPICH2_NUMVERSION'' = Some (IntLit v) \<longrightarrow> - (2 ^ 63) < v \<and> v < 2 ^ 64) \<longrightarrow>
      (case mpich2_h h s of
         Inl err \<Rightarrow>
           err = BadIfExpression ''MPICH2_NUMVERSION'' \<or>
           (\<exists>m \<in> set f90_markers. err = Redefinition m) \<or>
           err = IncludeFailed ''mpich2io.h''
       | Inr s' \<Rightarrow>
           \<forall>m \<in> set f90_markers.
             (define_count m (emitted s s') = 1 \<longleftrightarrow>
                platform_condition (macros s) \<and> version_condition (macros s)) \<and>
             (leaves f90_markers h \<and> \<not> pp_defined (macros s) m \<longrightarrow>
                (pp_defined (macros s') m \<longleftrightarrow>
                   platform_condition (macros s) \<and> version_condition (macros s))))) \<and>
   (keeps_defined ''PyMPI_CONFIG_MPICH2_H'' h \<longrightarrow>
      (case include_times h n s of
         Inl err \<Rightarrow> True
       | Inr t \<Rightarrow> \<forall>m \<in> set f90_markers. define_count m (emitted s t) \<le> 1))"
proof (intro conjI impI)
  assume "\<not> pp_defined (macros s) ''PyMPI_CONFIG_MPICH2_H'' \<and>
    (\<forall>v. macros s ''MPICH2_NUMVERSION'' = Some (IntLit v) \<longrightarrow> - (2 ^ 63) < v \<and> v < 2 ^ 64)"
  then have guard: "\<not> pp_defined (macros s) ''PyMPI_CONFIG_MPICH2_H''"
    and range: "\<forall>v. macros s ''MPICH2_NUMVERSION'' = Some (IntLit v) \<longrightarrow>
                  - (2 ^ 63) < v \<and> v < 2 ^ 64"
    by simp_all
  show "case mpich2_h h s of
         Inl err \<Rightarrow>
           err = BadIfExpression ''MPICH2_NUMVERSION'' \<or>
           (\<exists>m \<in> set f90_markers. err = Redefinition m) \<or>
           err = IncludeFailed ''mpich2io.h''
       | Inr s' \<Rightarrow>
           \<forall>m \<in> set f90_markers.
             (define_count m (emitted s s') = 1 \<longleftrightarrow>
                platform_condition (macros s) \<and> version_condition (macros s)) \<and>
             (leaves f90_markers h \<and> \<not> pp_defined (macros s) m \<longrightarrow>
                (pp_defined (macros s') m \<longleftrightarrow>
                   platform_condition (macros s) \<and> version_condition (macros s)))"
  proof (cases "mpich2_h h s")
    case (Inl err)
    from mpich2_h_Inl [OF Inl] show ?thesis
      by (auto simp: Inl)
  next
    case (Inr s')
    note reached = mpich2_h_gap_reached [OF Inr guard range]
    have "(define_count m (emitted s s') = 1 \<longleftrightarrow>
            platform_condition (macros s) \<and> version_condition (macros s)) \<and>
          (leaves f90_markers h \<and> \<not> pp_defined (macros s) m \<longrightarrow>
            (pp_defined (macros s') m \<longleftrightarrow>
               platform_condition (macros s) \<and> version_condition (macros s)))"
      if m: "m \<in> set f90_markers" for m
    proof (intro conjI impI)
      from mpich2_h_markers(1) [OF Inr m] guard reached
      show "define_count m (emitted s s') = 1 \<longleftrightarrow>
          platform_condition (macros s) \<and> version_condition (macros s)"
        by simp
    next
      assume "leaves f90_markers h \<and> \<not> pp_defined (macros s) m"
      then have lv: "leaves f90_markers h" and fresh: "macros s m = None"
        by (simp_all add: pp_defined_def)
      from mpich2_h_markers(2) [OF Inr m lv] guard fresh reached
      show "pp_defined (macros s') m \<longleftrightarrow>
          platform_condition (macros s) \<and> version_condition (macros s)"
        by (simp add: pp_defined_def)
    qed
    then show ?thesis by (simp add: Inr)
  qed
next
  assume keeps: "keeps_defined ''PyMPI_CONFIG_MPICH2_H'' h"
  show "case include_times h n s of
         Inl err \<Rightarrow> True
       | Inr t \<Rightarrow> \<forall>m \<in> set f90_markers. define_count m (emitted s t) \<le> 1"
  proof (cases n)
    case 0
    then show ?thesis by simp
  next
    case (Suc k)
    have once: "include_times h n s = mpich2_h h s"
      unfolding Suc by (rule include_times_Suc [OF keeps])
    show ?thesis
    proof (cases "mpich2_h h s")
      case (Inl err)
      then show ?thesis unfolding once by simp
    next
      case (Inr t)
      from mpich2_h_markers(1) [OF Inr] show ?thesis
        unfolding once by (simp add: Inr)
    qed
  qed
qed

text \<open>
  The claim as it is written speaks of every initial environment. Where the include guard
  is defined already, both conditions can hold and no marker be defined afterwards. (And
  where the version number does not fit the 64 bits of line 5, the test is not the
  comparison of the claim: see \<open>run_windows_wrapped\<close> and \<open>run_windows_lowest\<close>.)
\<close>

theorem markers_iff_conditions_guarded:
  "platform_condition (reincluded (with_romio windows_unversioned)) \<and>
   version_condition (reincluded (with_romio windows_unversioned)) \<and>
   mpich2_h declarations_only (build (reincluded (with_romio windows_unversioned))) =
     Inr (build (reincluded (with_romio windows_unversioned))) \<and>
   \<not> pp_defined (macros (build (reincluded (with_romio windows_unversioned))))
       ''PyMPI_MISSING_MPI_TYPE_CREATE_F90_COMPLEX''"
  by (simp add: run_reincluded)
    (simp add: reincluded_def with_romio_def windows_unversioned_def build_def pp_defined_def
      platform_condition_def version_condition_def)

theorem markers_iff_conditions_witness:
  "platform_condition windows_mpich2_108 \<and> version_condition windows_mpich2_108 \<and>
   (case mpich2_h declarations_only (build windows_mpich2_108) of
      Inl err \<Rightarrow> False
    | Inr s' \<Rightarrow>
        list_all (\<lambda>m. define_count m (emitted (build windows_mpich2_108) s') = 1 \<and>
                      pp_defined (macros s') m) f90_markers) \<and>
   (case include_times declarations_only (Suc (Suc (Suc 0))) (build windows_mpich2_108) of
      Inl err \<Rightarrow> False
    | Inr t \<Rightarrow>
        list_all (\<lambda>m. define_count m (emitted (build windows_mpich2_108) t) \<le> 1) f90_markers)"
proof -
  have pre: "\<not> pp_defined (macros (build windows_mpich2_108)) ''PyMPI_CONFIG_MPICH2_H'' \<and>
      (\<forall>v. macros (build windows_mpich2_108) ''MPICH2_NUMVERSION'' = Some (IntLit v) \<longrightarrow>
         - (2 ^ 63) < v \<and> v < 2 ^ 64)"
    by (simp add: macros_build windows_mpich2_108_def pp_defined_def)
  have fresh: "\<forall>m \<in> set f90_markers. \<not> pp_defined windows_mpich2_108 m"
    by (simp add: windows_mpich2_108_def pp_defined_def f90_markers_def)
  have conds: "platform_condition windows_mpich2_108" "version_condition windows_mpich2_108"
    by (simp_all add: platform_condition_def version_condition_def pp_defined_def
        windows_mpich2_108_def)
  have thrice:
    "include_times declarations_only (Suc (Suc (Suc 0))) (build windows_mpich2_108) =
       mpich2_h declarations_only (build windows_mpich2_108)"
    by (simp add: run_windows_mpich2_108 and_then_def mpich2_h_guarded pp_defined_def)
  note here = markers_iff_conditions
    [of "build windows_mpich2_108" declarations_only "Suc (Suc (Suc 0))"]
  from here [THEN conjunct1, THEN mp, OF pre] conds fresh
  have "case mpich2_h declarations_only (build windows_mpich2_108) of
      Inl err \<Rightarrow> False
    | Inr s' \<Rightarrow>
        list_all (\<lambda>m. define_count m (emitted (build windows_mpich2_108) s') = 1 \<and>
                      pp_defined (macros s') m) f90_markers"
    by (simp add: run_windows_mpich2_108 list_all_iff macros_build declarations_only_leaves)
  moreover
  from here [THEN conjunct2, THEN mp, OF declarations_only_keeps]
  have "case include_times declarations_only (Suc (Suc (Suc 0))) (build windows_mpich2_108) of
      Inl err \<Rightarrow> False
    | Inr t \<Rightarrow>
        list_all (\<lambda>m. define_count m (emitted (build windows_mpich2_108) t) \<le> 1) f90_markers"
    unfolding thrice by (simp add: run_windows_mpich2_108 list_all_iff)
  ultimately show ?thesis using conds by simp
qed


section \<open>The two groups do not interfere\<close>

text \<open>
  Claim C9. Take any two initial states and the pass over the header from each of them,
  whether the translation succeeds or not. If the two environments differ at most in
  \<^verbatim>\<open>MS_WINDOWS\<close> and \<^verbatim>\<open>MPICH2_NUMVERSION\<close>, then the \<^verbatim>\<open>#include\<close> of \<^verbatim>\<open>mpich2io.h\<close> is executed
  in both passes or in neither. If they differ at most in \<^verbatim>\<open>ROMIO_VERSION\<close>, then each
  marker's \<^verbatim>\<open>#define\<close> is executed in both passes or in neither, and the marker is bound
  alike afterwards when \<^verbatim>\<open>mpich2io.h\<close> does not touch the markers.
\<close>

theorem guards_independent:
  "((\<forall>x. x \<noteq> ''MS_WINDOWS'' \<and> x \<noteq> ''MPICH2_NUMVERSION'' \<longrightarrow> macros s x = macros t x) \<longrightarrow>
      include_count ''mpich2io.h'' (emitted s (fst (mpich2_h_pass h s))) =
      include_count ''mpich2io.h'' (emitted t (fst (mpich2_h_pass h t)))) \<and>
   ((\<forall>x. x \<noteq> ''ROMIO_VERSION'' \<longrightarrow> macros s x = macros t x) \<longrightarrow>
      (\<forall>m \<in> set f90_markers.
         define_count m (emitted s (fst (mpich2_h_pass h s))) =
         define_count m (emitted t (fst (mpich2_h_pass h t))) \<and>
         (leaves f90_markers h \<longrightarrow>
            macros (fst (mpich2_h_pass h s)) m = macros (fst (mpich2_h_pass h t)) m)))"
proof (intro conjI impI)
  assume same: "\<forall>x. x \<noteq> ''MS_WINDOWS'' \<and> x \<noteq> ''MPICH2_NUMVERSION'' \<longrightarrow> macros s x = macros t x"
  then have "macros s ''PyMPI_CONFIG_MPICH2_H'' = macros t ''PyMPI_CONFIG_MPICH2_H''"
    and "macros s ''ROMIO_VERSION'' = macros t ''ROMIO_VERSION''"
    by simp_all
  then have "pp_defined (macros s) ''PyMPI_CONFIG_MPICH2_H'' =
      pp_defined (macros t) ''PyMPI_CONFIG_MPICH2_H''"
    and "pp_defined (macros s) ''ROMIO_VERSION'' = pp_defined (macros t) ''ROMIO_VERSION''"
    by (simp_all add: pp_defined_def)
  then show "include_count ''mpich2io.h'' (emitted s (fst (mpich2_h_pass h s))) =
      include_count ''mpich2io.h'' (emitted t (fst (mpich2_h_pass h t)))"
    by (simp add: pass_include_count)
next
  assume same: "\<forall>x. x \<noteq> ''ROMIO_VERSION'' \<longrightarrow> macros s x = macros t x"
  then have "macros s ''PyMPI_CONFIG_MPICH2_H'' = macros t ''PyMPI_CONFIG_MPICH2_H''"
    and "macros s ''MS_WINDOWS'' = macros t ''MS_WINDOWS''"
    and "macros s ''MPICH2_NUMVERSION'' = macros t ''MPICH2_NUMVERSION''"
    by simp_all
  then have decide:
    "pp_defined (macros s) ''PyMPI_CONFIG_MPICH2_H'' =
       pp_defined (macros t) ''PyMPI_CONFIG_MPICH2_H''"
    "gap_reached (macros s) = gap_reached (macros t)"
    by (simp_all add: pp_defined_def gap_reached_def numversion_test_def pp_operand_def)
  show "\<forall>m \<in> set f90_markers.
      define_count m (emitted s (fst (mpich2_h_pass h s))) =
      define_count m (emitted t (fst (mpich2_h_pass h t))) \<and>
      (leaves f90_markers h \<longrightarrow>
         macros (fst (mpich2_h_pass h s)) m = macros (fst (mpich2_h_pass h t)) m)"
  proof (intro ballI conjI impI)
    fix m assume m: "m \<in> set f90_markers"
    show "define_count m (emitted s (fst (mpich2_h_pass h s))) =
        define_count m (emitted t (fst (mpich2_h_pass h t)))"
      by (simp add: pass_define_count [OF m] decide)
    assume lv: "leaves f90_markers h"
    from m have "m \<noteq> ''ROMIO_VERSION''"
      by (auto simp: f90_markers_def)
    with same have "macros s m = macros t m" by simp
    then show "macros (fst (mpich2_h_pass h s)) m = macros (fst (mpich2_h_pass h t)) m"
      by (simp add: pass_marker [OF m lv] decide)
  qed
qed

text \<open>
  At work on a build whose translation fails at the \<^verbatim>\<open>#include\<close> and one whose translation
  succeeds, and on one that fails at line 5 and one that fails at the \<^verbatim>\<open>#include\<close>.
\<close>

theorem guards_independent_witness:
  "mpich2_h not_found (build windows_unversioned) = Inl (IncludeFailed ''mpich2io.h'') \<and>
   list_all
     (\<lambda>m. define_count m
        (emitted (build windows_unversioned)
           (fst (mpich2_h_pass not_found (build windows_unversioned)))) = 1 \<and>
      define_count m
        (emitted (build (with_romio windows_unversioned))
           (fst (mpich2_h_pass not_found (build (with_romio windows_unversioned))))) = 1)
     f90_markers \<and>
   include_count ''mpich2io.h''
     (emitted (build [''MS_WINDOWS'' \<mapsto> Empty, ''MPICH2_NUMVERSION'' \<mapsto> Empty])
        (fst (mpich2_h_pass not_found
           (build [''MS_WINDOWS'' \<mapsto> Empty, ''MPICH2_NUMVERSION'' \<mapsto> Empty])))) = 1 \<and>
   include_count ''mpich2io.h''
     (emitted (build Map.empty) (fst (mpich2_h_pass not_found (build Map.empty)))) = 1"
proof -
  have romio:
    "\<forall>x. x \<noteq> ''ROMIO_VERSION'' \<longrightarrow>
       macros (build windows_unversioned) x = macros (build (with_romio windows_unversioned)) x"
    by (simp add: macros_build with_romio_def)
  have platform:
    "\<forall>x. x \<noteq> ''MS_WINDOWS'' \<and> x \<noteq> ''MPICH2_NUMVERSION'' \<longrightarrow>
       macros (build [''MS_WINDOWS'' \<mapsto> Empty, ''MPICH2_NUMVERSION'' \<mapsto> Empty]) x =
       macros (build Map.empty) x"
    by (simp add: macros_build)
  have fails: "mpich2_h not_found (build windows_unversioned) = Inl (IncludeFailed ''mpich2io.h'')"
    by (simp add: header_defs build_def windows_unversioned_def not_found_def)
  have one: "list_all
     (\<lambda>m. define_count m
        (emitted (build windows_unversioned)
           (fst (mpich2_h_pass not_found (build windows_unversioned)))) = 1) f90_markers"
    by (simp add: list_all_iff pass_define_count macros_build gap_reached_def
        numversion_test_undefined windows_unversioned_def pp_defined_def)
  have last: "include_count ''mpich2io.h''
     (emitted (build Map.empty) (fst (mpich2_h_pass not_found (build Map.empty)))) = 1"
    by (simp add: pass_include_count macros_build pp_defined_def)
  from guards_independent
    [of "build windows_unversioned" "build (with_romio windows_unversioned)" not_found,
      THEN conjunct2, THEN mp, OF romio]
    guards_independent
    [of "build [''MS_WINDOWS'' \<mapsto> Empty, ''MPICH2_NUMVERSION'' \<mapsto> Empty]" "build Map.empty"
      not_found, THEN conjunct1, THEN mp, OF platform]
    fails one last
  show ?thesis
    by (simp add: list_all_iff)
qed

section \<open>The frame\<close>

text \<open>
  Claim C10, as amended. A pass over the header undefines no macro, and changes the
  replacement list of no macro of the initial environment but, possibly, of the three
  markers: a marker that is defined with a body other than 1 is defined anew, as 1, when
  lines 6 to 8 are reached. Besides that the header's own directives only add: the include
  guard, with an empty body, and the three markers, each with body 1; what the environment
  holds after them is either the final environment or what \<^verbatim>\<open>mpich2io.h\<close> is given. So with
  an \<^verbatim>\<open>mpich2io.h\<close> that only adds definitions in its turn, every macro of the initial
  environment is defined as before in the final one, or is a marker that had another body
  and now has the body 1. This holds of every pass, whether the translation succeeds or
  not.
\<close>

theorem mpich2_h_frame:
  "(\<exists>e. (\<forall>x b. macros s x = Some b \<longrightarrow>
            e x = Some b \<or> x \<in> set f90_markers \<and> b \<noteq> IntLit 1 \<and> e x = Some (IntLit 1)) \<and>
        (\<forall>x b. macros s x = None \<and> e x = Some b \<longrightarrow>
            x = ''PyMPI_CONFIG_MPICH2_H'' \<and> b = Empty \<or>
            x \<in> set f90_markers \<and> b = IntLit 1) \<and>
        (macros (fst (mpich2_h_pass h s)) = e \<or>
         h e = Some (macros (fst (mpich2_h_pass h s))))) \<and>
   (only_adds h \<longrightarrow>
      (\<forall>x b. macros s x = Some b \<longrightarrow>
         macros (fst (mpich2_h_pass h s)) x = Some b \<or>
         x \<in> set f90_markers \<and> b \<noteq> IntLit 1 \<and>
           macros (fst (mpich2_h_pass h s)) x = Some (IntLit 1)))"
proof (cases "pp_defined (macros s) ''PyMPI_CONFIG_MPICH2_H''")
  case True
  then have same: "macros (fst (mpich2_h_pass h s)) = macros s"
    by (simp add: pass_macros)
  have "\<exists>e. (\<forall>x b. macros s x = Some b \<longrightarrow>
            e x = Some b \<or> x \<in> set f90_markers \<and> b \<noteq> IntLit 1 \<and> e x = Some (IntLit 1)) \<and>
        (\<forall>x b. macros s x = None \<and> e x = Some b \<longrightarrow>
            x = ''PyMPI_CONFIG_MPICH2_H'' \<and> b = Empty \<or>
            x \<in> set f90_markers \<and> b = IntLit 1) \<and>
        (macros (fst (mpich2_h_pass h s)) = e \<or>
         h e = Some (macros (fst (mpich2_h_pass h s))))"
    by (rule exI [of _ "macros s"]) (auto simp: same)
  then show ?thesis by (simp add: same)
next
  case False
  let ?e = "own_macros (macros s)"
  let ?e' = "macros (fst (mpich2_h_pass h s))"
  have old: "\<forall>x b. macros s x = Some b \<longrightarrow>
      ?e x = Some b \<or> x \<in> set f90_markers \<and> b \<noteq> IntLit 1 \<and> ?e x = Some (IntLit 1)"
    using own_macros_old [OF False] by blast
  have new: "\<forall>x b. macros s x = None \<and> ?e x = Some b \<longrightarrow>
      x = ''PyMPI_CONFIG_MPICH2_H'' \<and> b = Empty \<or> x \<in> set f90_markers \<and> b = IntLit 1"
    using own_macros_new by blast
  from False have last: "?e' = ?e \<or> h ?e = Some ?e'"
    by (auto simp: pass_macros split: option.splits)
  have kept: "?e' x = Some b \<or> x \<in> set f90_markers \<and> b \<noteq> IntLit 1 \<and> ?e' x = Some (IntLit 1)"
    if adds: "only_adds h" and x: "macros s x = Some b" for x b
  proof -
    from last adds have "?e \<subseteq>\<^sub>m ?e'"
      by (auto simp: only_adds_def)
    then have "?e' x = Some c" if "?e x = Some c" for c
      using that by (auto simp: map_le_def dom_def)
    with old x show ?thesis by blast
  qed
  from old new last have "\<exists>e. (\<forall>x b. macros s x = Some b \<longrightarrow>
            e x = Some b \<or> x \<in> set f90_markers \<and> b \<noteq> IntLit 1 \<and> e x = Some (IntLit 1)) \<and>
        (\<forall>x b. macros s x = None \<and> e x = Some b \<longrightarrow>
            x = ''PyMPI_CONFIG_MPICH2_H'' \<and> b = Empty \<or>
            x \<in> set f90_markers \<and> b = IntLit 1) \<and>
        (?e' = e \<or> h e = Some ?e')"
    by blast
  with kept show ?thesis by blast
qed

text \<open>
  The claim as it is written lets no macro of the initial environment change, and fails
  where a marker is defined before the header is read, with another body: the header
  defines it anew.
\<close>

theorem frame_marker_taken:
  "macros (build marker_taken) ''PyMPI_MISSING_MPI_TYPE_CREATE_F90_REAL'' = Some (IntLit 0) \<and>
   mpich2_h declarations_only (build marker_taken) =
     Inr \<lparr>macros = marker_taken
            (''PyMPI_CONFIG_MPICH2_H'' \<mapsto> Empty,
             ''PyMPI_MISSING_MPI_TYPE_CREATE_F90_INTEGER'' \<mapsto> IntLit 1,
             ''PyMPI_MISSING_MPI_TYPE_CREATE_F90_REAL'' \<mapsto> IntLit 1,
             ''PyMPI_MISSING_MPI_TYPE_CREATE_F90_COMPLEX'' \<mapsto> IntLit 1),
          trace =
            [Defined ''PyMPI_CONFIG_MPICH2_H'' Empty,
             Defined ''PyMPI_MISSING_MPI_TYPE_CREATE_F90_INTEGER'' (IntLit 1),
             Defined ''PyMPI_MISSING_MPI_TYPE_CREATE_F90_REAL'' (IntLit 1),
             Defined ''PyMPI_MISSING_MPI_TYPE_CREATE_F90_COMPLEX'' (IntLit 1),
             Included ''mpich2io.h''],
          pedantic_errors = False\<rparr> \<and>
   (marker_taken
      (''PyMPI_CONFIG_MPICH2_H'' \<mapsto> Empty,
       ''PyMPI_MISSING_MPI_TYPE_CREATE_F90_INTEGER'' \<mapsto> IntLit 1,
       ''PyMPI_MISSING_MPI_TYPE_CREATE_F90_REAL'' \<mapsto> IntLit 1,
       ''PyMPI_MISSING_MPI_TYPE_CREATE_F90_COMPLEX'' \<mapsto> IntLit 1))
     ''PyMPI_MISSING_MPI_TYPE_CREATE_F90_REAL'' = Some (IntLit 1)"
  by (simp add: run_marker_taken) (simp add: build_def marker_taken_def)

theorem mpich2_h_frame_witness:
  "only_adds declarations_only \<and>
   macros (fst (mpich2_h_pass declarations_only (build marker_taken))) ''MS_WINDOWS'' =
     Some Empty \<and>
   macros (fst (mpich2_h_pass declarations_only (build marker_taken)))
     ''PyMPI_MISSING_MPI_TYPE_CREATE_F90_REAL'' = Some (IntLit 1)"
proof -
  have ms: "macros (build marker_taken) ''MS_WINDOWS'' = Some Empty"
    and real: "macros (build marker_taken) ''PyMPI_MISSING_MPI_TYPE_CREATE_F90_REAL'' =
      Some (IntLit 0)"
    by (simp_all add: build_def marker_taken_def windows_unversioned_def)
  have no_marker: "''MS_WINDOWS'' \<notin> set f90_markers"
    by (simp add: f90_markers_def)
  note here = mpich2_h_frame [of "build marker_taken" declarations_only,
      THEN conjunct2, THEN mp, OF declarations_only_adds, rule_format]
  from here [OF ms] no_marker
  have "macros (fst (mpich2_h_pass declarations_only (build marker_taken))) ''MS_WINDOWS'' =
      Some Empty"
    by simp
  moreover from here [OF real]
  have "macros (fst (mpich2_h_pass declarations_only (build marker_taken)))
      ''PyMPI_MISSING_MPI_TYPE_CREATE_F90_REAL'' = Some (IntLit 1) \<or>
    macros (fst (mpich2_h_pass declarations_only (build marker_taken)))
      ''PyMPI_MISSING_MPI_TYPE_CREATE_F90_REAL'' = Some (IntLit 0)"
    by auto
  moreover from run_marker_taken
  have "macros (fst (mpich2_h_pass declarations_only (build marker_taken)))
      ''PyMPI_MISSING_MPI_TYPE_CREATE_F90_REAL'' \<noteq> Some (IntLit 0)"
    by (simp add: mpich2_h_Inr_iff)
  ultimately show ?thesis
    using declarations_only_adds by auto
qed

end
